theory Spec2Isabelle
  imports Complex_Main
begin

section \<open>Errors\<close>

text \<open>
  Every way a call of \<^verbatim>\<open>model.py\<close> can stop is a value. \<open>ValueError\<close> carries the
  arguments of the exception: the module raises one itself (in \<^verbatim>\<open>Attn.__init__\<close>, with two
  arguments), and the constructors of the library raise one, with a message, for a
  hyperparameter they refuse (the number the library prints after the message is left out).
  The other errors come from the tensor library the module calls (\<open>RuntimeError\<close> for a shape
  or packing failure, \<open>IndexError\<close> for an embedding index out of range, \<open>CudaError\<close> for a
  transfer to a CUDA device that is absent) or from Python itself (\<open>AttributeError\<close> for an
  attribute that was never set, \<open>UnboundLocalError\<close> for a local variable read before any
  branch assigned it).
\<close>

datatype error =
    ValueError "string list"
  | RuntimeError
  | IndexError
  | AttributeError
  | UnboundLocalError
  | CudaError

definition ebind :: "error + 'a \<Rightarrow> ('a \<Rightarrow> error + 'b) \<Rightarrow> error + 'b" where
  "ebind m f = (case m of Inl e \<Rightarrow> Inl e | Inr x \<Rightarrow> f x)"

section \<open>Tensors\<close>

text \<open>
  A tensor is its shape together with its entries, read by index. Ranks are fixed by the type
  (the module only handles ranks one to three); entries are real numbers, so rounding of
  floating-point arithmetic is not part of the model. An entry outside the shape is never read
  by any operation below.
\<close>

record tensor1 =
  len1 :: nat
  at1 :: "nat \<Rightarrow> real"

record tensor2 =
  rows :: nat
  cols :: nat
  at2 :: "nat \<Rightarrow> nat \<Rightarrow> real"

record tensor3 =
  d0 :: nat
  d1 :: nat
  d2 :: nat
  at3 :: "nat \<Rightarrow> nat \<Rightarrow> nat \<Rightarrow> real"

text \<open>Index tensors (word indexes) hold Python integers.\<close>

record itensor2 =
  irows :: nat
  icols :: nat
  iat :: "nat \<Rightarrow> nat \<Rightarrow> int"

subsection \<open>Broadcasting element-wise operations\<close>

text \<open>
  Two sizes are compatible when they are equal or one of them is 1; the dimension of size 1 is
  then read at index 0 for every index of the other.
\<close>

definition broadcast_size :: "nat \<Rightarrow> nat \<Rightarrow> nat option" where
  "broadcast_size a b =
     (if a = b then Some a else if a = 1 then Some b else if b = 1 then Some a else None)"

definition bidx :: "nat \<Rightarrow> nat \<Rightarrow> nat" where
  "bidx n i = (if n = 1 then 0 else i)"

definition broadcast3 :: "(real \<Rightarrow> real \<Rightarrow> real) \<Rightarrow> tensor3 \<Rightarrow> tensor3 \<Rightarrow> error + tensor3" where
  "broadcast3 f x y =
     (case (broadcast_size (d0 x) (d0 y), broadcast_size (d1 x) (d1 y),
            broadcast_size (d2 x) (d2 y)) of
        (Some a, Some b, Some c) \<Rightarrow>
          Inr \<lparr>d0 = a, d1 = b, d2 = c,
               at3 = \<lambda>i j k. f (at3 x (bidx (d0 x) i) (bidx (d1 x) j) (bidx (d2 x) k))
                                (at3 y (bidx (d0 y) i) (bidx (d1 y) j) (bidx (d2 y) k))\<rparr>
      | _ \<Rightarrow> Inl RuntimeError)"

definition torch_mul :: "tensor3 \<Rightarrow> tensor3 \<Rightarrow> error + tensor3" where
  "torch_mul x y = broadcast3 (\<lambda>a b. a * b) x y"

definition torch_add :: "tensor3 \<Rightarrow> tensor3 \<Rightarrow> error + tensor3" where
  "torch_add x y = broadcast3 (\<lambda>a b. a + b) x y"

text \<open>A vector multiplied with a rank-3 tensor is aligned with the last dimension.\<close>

definition as_rank3 :: "tensor1 \<Rightarrow> tensor3" where
  "as_rank3 v = \<lparr>d0 = 1, d1 = 1, d2 = len1 v, at3 = \<lambda>i j k. at1 v k\<rparr>"

subsection \<open>Reductions, views and normalisation\<close>

definition torch_sum_dim2 :: "tensor3 \<Rightarrow> tensor2" where
  "torch_sum_dim2 x = \<lparr>rows = d0 x, cols = d1 x, at2 = \<lambda>i j. (\<Sum>k<d2 x. at3 x i j k)\<rparr>"

definition tensor_t :: "tensor2 \<Rightarrow> tensor2" where
  "tensor_t x = \<lparr>rows = cols x, cols = rows x, at2 = \<lambda>i j. at2 x j i\<rparr>"

definition softmax_dim1 :: "tensor2 \<Rightarrow> tensor2" where
  "softmax_dim1 x =
     \<lparr>rows = rows x, cols = cols x,
      at2 = \<lambda>i j. exp (at2 x i j) / (\<Sum>k<cols x. exp (at2 x i k))\<rparr>"

definition unsqueeze1 :: "tensor2 \<Rightarrow> tensor3" where
  "unsqueeze1 x = \<lparr>d0 = rows x, d1 = 1, d2 = cols x, at3 = \<lambda>i j k. at2 x i k\<rparr>"

text \<open>\<^verbatim>\<open>x.expand(n, -1, -1)\<close>: only a first dimension of size 1 (or already \<open>n\<close>) expands.\<close>

definition expand0 :: "tensor3 \<Rightarrow> nat \<Rightarrow> error + tensor3" where
  "expand0 x n =
     (if d0 x = n then Inr x
      else if d0 x = 1 then Inr \<lparr>d0 = n, d1 = d1 x, d2 = d2 x, at3 = \<lambda>i j k. at3 x 0 j k\<rparr>
      else Inl RuntimeError)"

text \<open>\<^verbatim>\<open>torch.cat((x, y), 2)\<close>: all dimensions but the last must agree.\<close>

definition torch_cat_dim2 :: "tensor3 \<Rightarrow> tensor3 \<Rightarrow> error + tensor3" where
  "torch_cat_dim2 x y =
     (if d0 x = d0 y \<and> d1 x = d1 y
      then Inr \<lparr>d0 = d0 x, d1 = d1 x, d2 = d2 x + d2 y,
                at3 = \<lambda>i j k. if k < d2 x then at3 x i j k else at3 y i j (k - d2 x)\<rparr>
      else Inl RuntimeError)"

definition tanh3 :: "tensor3 \<Rightarrow> tensor3" where
  "tanh3 x = x\<lparr>at3 := \<lambda>i j k. tanh (at3 x i j k)\<rparr>"

subsection \<open>Linear layers and parameters\<close>

text \<open>
  \<^verbatim>\<open>nn.Linear(i, o)\<close> holds an \<open>o \<times> i\<close> weight matrix and a bias vector and maps a feature
  vector \<open>x\<close> to \<open>x W\<^sup>T + b\<close>. The values the library initialises (and training later
  changes) are an argument of the constructor.
\<close>

record linear =
  in_features :: nat
  out_features :: nat
  weight :: "nat \<Rightarrow> nat \<Rightarrow> real"
  bias :: "nat \<Rightarrow> real"

type_synonym linear_values = "(nat \<Rightarrow> nat \<Rightarrow> real) \<times> (nat \<Rightarrow> real)"

definition nn_Linear :: "linear_values \<Rightarrow> nat \<Rightarrow> nat \<Rightarrow> linear" where
  "nn_Linear vals i o' = \<lparr>in_features = i, out_features = o', weight = fst vals, bias = snd vals\<rparr>"

definition linear_forward3 :: "linear \<Rightarrow> tensor3 \<Rightarrow> error + tensor3" where
  "linear_forward3 l x =
     (if d2 x \<noteq> in_features l then Inl RuntimeError
      else Inr \<lparr>d0 = d0 x, d1 = d1 x, d2 = out_features l,
                at3 = \<lambda>i j q. (\<Sum>k<in_features l. at3 x i j k * weight l q k) + bias l q\<rparr>)"

definition nn_Parameter :: "(nat \<Rightarrow> real) \<Rightarrow> nat \<Rightarrow> tensor1" where
  "nn_Parameter vals n = \<lparr>len1 = n, at1 = vals\<rparr>"

section \<open>The Luong attention layer\<close>

text \<open>
  \<^verbatim>\<open>class Attn\<close>. The attributes \<^verbatim>\<open>self.attn\<close> and \<^verbatim>\<open>self.v\<close> exist only for the methods
  that set them, hence the options.
\<close>

record attn =
  attn_method :: string
  attn_hidden_size :: nat
  attn_linear :: "linear option"
  attn_v :: "tensor1 option"

definition Attn_init :: "linear_values \<Rightarrow> (nat \<Rightarrow> real) \<Rightarrow> string \<Rightarrow> nat \<Rightarrow> error + attn" where
  "Attn_init lin_vals v_vals method' hidden_size =
     (if method' \<notin> set [''dot'', ''general'', ''concat'']
      then Inl (ValueError [method', ''is not an appropriate attention method.''])
      else if method' = ''general''
      then Inr \<lparr>attn_method = method', attn_hidden_size = hidden_size,
                attn_linear = Some (nn_Linear lin_vals hidden_size hidden_size),
                attn_v = None\<rparr>
      else if method' = ''concat''
      then Inr \<lparr>attn_method = method', attn_hidden_size = hidden_size,
                attn_linear = Some (nn_Linear lin_vals (hidden_size * 2) hidden_size),
                attn_v = Some (nn_Parameter v_vals hidden_size)\<rparr>
      else Inr \<lparr>attn_method = method', attn_hidden_size = hidden_size,
                attn_linear = None, attn_v = None\<rparr>)"

definition dot_score :: "attn \<Rightarrow> tensor3 \<Rightarrow> tensor3 \<Rightarrow> error + tensor2" where
  "dot_score self hidden encoder_output =
     ebind (torch_mul hidden encoder_output) (\<lambda>p. Inr (torch_sum_dim2 p))"

definition general_score :: "attn \<Rightarrow> tensor3 \<Rightarrow> tensor3 \<Rightarrow> error + tensor2" where
  "general_score self hidden encoder_output =
     (case attn_linear self of
        None \<Rightarrow> Inl AttributeError
      | Some l \<Rightarrow>
          ebind (linear_forward3 l encoder_output) (\<lambda>energy.
          ebind (torch_mul hidden energy) (\<lambda>p. Inr (torch_sum_dim2 p))))"

definition concat_score :: "attn \<Rightarrow> tensor3 \<Rightarrow> tensor3 \<Rightarrow> error + tensor2" where
  "concat_score self hidden encoder_output =
     (case attn_linear self of
        None \<Rightarrow> Inl AttributeError
      | Some l \<Rightarrow>
          ebind (expand0 hidden (d0 encoder_output)) (\<lambda>h.
          ebind (torch_cat_dim2 h encoder_output) (\<lambda>c.
          ebind (linear_forward3 l c) (\<lambda>a.
          (let energy = tanh3 a in
           case attn_v self of
             None \<Rightarrow> Inl AttributeError
           | Some v \<Rightarrow> ebind (torch_mul (as_rank3 v) energy) (\<lambda>p. Inr (torch_sum_dim2 p)))))))"

definition Attn_forward :: "attn \<Rightarrow> tensor3 \<Rightarrow> tensor3 \<Rightarrow> error + tensor3" where
  "Attn_forward self hidden encoder_outputs =
     ebind (if attn_method self = ''general'' then general_score self hidden encoder_outputs
            else if attn_method self = ''concat'' then concat_score self hidden encoder_outputs
            else if attn_method self = ''dot'' then dot_score self hidden encoder_outputs
            else Inl UnboundLocalError)
       (\<lambda>attn_energies. Inr (unsqueeze1 (softmax_dim1 (tensor_t attn_energies))))"

section \<open>Embedding, dropout and recurrent layers\<close>

text \<open>
  \<^verbatim>\<open>nn.Embedding(n, d)\<close> is a table of \<open>n\<close> rows of \<open>d\<close> features; looking up an index outside
  \<open>0..n-1\<close> raises.
\<close>

record embedding =
  num_embeddings :: nat
  embedding_dim :: nat
  table :: "nat \<Rightarrow> nat \<Rightarrow> real"

definition nn_Embedding :: "(nat \<Rightarrow> nat \<Rightarrow> real) \<Rightarrow> nat \<Rightarrow> nat \<Rightarrow> embedding" where
  "nn_Embedding vals n d = \<lparr>num_embeddings = n, embedding_dim = d, table = vals\<rparr>"

definition embedding_forward :: "embedding \<Rightarrow> itensor2 \<Rightarrow> error + tensor3" where
  "embedding_forward emb idx =
     (if (\<forall>i\<in>{..<irows idx}. \<forall>j\<in>{..<icols idx}.
            0 \<le> iat idx i j \<and> iat idx i j < int (num_embeddings emb))
      then Inr \<lparr>d0 = irows idx, d1 = icols idx, d2 = embedding_dim emb,
                at3 = \<lambda>i j k. table emb (nat (iat idx i j)) k\<rparr>
      else Inl IndexError)"

text \<open>
  \<^verbatim>\<open>nn.Dropout(p)\<close> refuses a probability outside \<open>[0, 1]\<close>. The layer keeps the shape;
  which entries it zeroes and rescales is the library's (random, mode-dependent) choice, an
  argument of the constructor.
\<close>

record dropout_layer =
  drop_p :: real
  drop_fn :: "tensor3 \<Rightarrow> nat \<Rightarrow> nat \<Rightarrow> nat \<Rightarrow> real"

definition nn_Dropout ::
  "(tensor3 \<Rightarrow> nat \<Rightarrow> nat \<Rightarrow> nat \<Rightarrow> real) \<Rightarrow> real \<Rightarrow> error + dropout_layer" where
  "nn_Dropout fn p =
     (if p < 0 \<or> p > 1
      then Inl (ValueError [''dropout probability has to be between 0 and 1''])
      else Inr \<lparr>drop_p = p, drop_fn = fn\<rparr>)"

definition dropout_forward :: "dropout_layer \<Rightarrow> tensor3 \<Rightarrow> tensor3" where
  "dropout_forward l x = x\<lparr>at3 := drop_fn l x\<rparr>"

subsection \<open>Packed sequences\<close>

text \<open>
  A packed sequence stores, time step after time step, only the rows of the batch whose
  sequence is still running: \<open>batch_sizes ! t\<close> rows for step \<open>t\<close>.
\<close>

record packed =
  pdata :: tensor2
  batch_sizes :: "nat list"

definition step_sizes :: "int list \<Rightarrow> nat list" where
  "step_sizes lengths =
     (case lengths of
        [] \<Rightarrow> []
      | l # _ \<Rightarrow> map (\<lambda>t. length (filter (\<lambda>m. int t < m) lengths)) [0..<nat l])"

fun locate :: "nat list \<Rightarrow> nat \<Rightarrow> nat \<times> nat" where
  "locate [] r = (0, r)"
| "locate (k # ks) r =
     (if r < k then (0, r) else (case locate ks (r - k) of (t, b) \<Rightarrow> (Suc t, b)))"

text \<open>
  \<^verbatim>\<open>nn.utils.rnn.pack_padded_sequence(input, lengths)\<close> with its defaults (time-major input,
  \<^verbatim>\<open>enforce_sorted=True\<close>). It refuses an empty input, a number of lengths other than the batch
  size, a last length that is not positive and lengths that are not in non-increasing order.
  It does not compare the lengths with the padded length: time steps beyond the input are
  announced in \<open>batch_sizes\<close> but have no rows in the data.
\<close>

definition pack_padded_sequence :: "tensor3 \<Rightarrow> int list \<Rightarrow> error + packed" where
  "pack_padded_sequence input lengths =
     (if d0 input * d1 input * d2 input = 0 then Inl RuntimeError
      else if length lengths \<noteq> d1 input then Inl RuntimeError
      else if last lengths \<le> 0 then Inl RuntimeError
      else if \<not> sorted_wrt (\<lambda>a b. b \<le> a) lengths then Inl RuntimeError
      else
        (let bs = step_sizes lengths in
         Inr \<lparr>pdata = \<lparr>rows = sum_list (take (d0 input) bs), cols = d2 input,
                        at2 = \<lambda>r c. (case locate bs r of (t, b) \<Rightarrow> at3 input t b c)\<rparr>,
              batch_sizes = bs\<rparr>))"

text \<open>
  \<^verbatim>\<open>nn.utils.rnn.pad_packed_sequence(sequence)\<close>: the padded tensor has one time step per
  entry of \<open>batch_sizes\<close>, the batch size of the first step, and zeros where a sequence has
  ended. (The lengths it also returns are dropped by the caller.)
\<close>

definition pad_packed_sequence :: "packed \<Rightarrow> error + tensor3" where
  "pad_packed_sequence p =
     (let bs = batch_sizes p; x = pdata p in
      case bs of
        [] \<Rightarrow> Inl RuntimeError
      | b0 # _ \<Rightarrow>
          if rows x < sum_list bs then Inl RuntimeError
          else Inr \<lparr>d0 = length bs, d1 = b0, d2 = cols x,
                    at3 = \<lambda>t b k. if b < bs ! t then at2 x (sum_list (take t bs) + b) k else 0\<rparr>)"

subsection \<open>Recurrent layers\<close>

text \<open>
  \<^verbatim>\<open>nn.LSTM\<close> and \<^verbatim>\<open>nn.GRU\<close>. Their common constructor refuses, in this order, a dropout
  probability outside \<open>[0, 1]\<close>, a hidden size of 0 and a number of layers of 0. What the model
  fixes of the layer itself is the library's shape contract: the input's feature size must be
  \<open>input_size\<close>, a given hidden state must have the shape (layers times directions, batch,
  hidden size) and the form of the layer's kind, a packed input must hold the rows its
  \<open>batch_sizes\<close> announce, and the output has the input's layout with directions times
  hidden size features. The values computed by the learned gates are an argument of the
  constructor.
\<close>

datatype hstate = GRUState tensor3 | LSTMState tensor3 tensor3

datatype rnn_kind = LSTM | GRU

type_synonym rnn_values =
  "(packed \<Rightarrow> hstate option \<Rightarrow> (nat \<Rightarrow> nat \<Rightarrow> real) \<times> hstate) \<times>
   (tensor3 \<Rightarrow> hstate option \<Rightarrow> (nat \<Rightarrow> nat \<Rightarrow> nat \<Rightarrow> real) \<times> hstate)"

record rnn_layer =
  kind :: rnn_kind
  input_size :: nat
  rnn_hidden_size :: nat
  num_layers :: nat
  rnn_dropout :: real
  bidirectional :: bool
  run_packed :: "packed \<Rightarrow> hstate option \<Rightarrow> (nat \<Rightarrow> nat \<Rightarrow> real) \<times> hstate"
  run_seq :: "tensor3 \<Rightarrow> hstate option \<Rightarrow> (nat \<Rightarrow> nat \<Rightarrow> nat \<Rightarrow> real) \<times> hstate"

definition RNNBase_init ::
  "rnn_kind \<Rightarrow> rnn_values \<Rightarrow> nat \<Rightarrow> nat \<Rightarrow> nat \<Rightarrow> real \<Rightarrow> bool \<Rightarrow> error + rnn_layer" where
  "RNNBase_init mode vals i h n dropout bi =
     (if \<not> (0 \<le> dropout \<and> dropout \<le> 1)
      then Inl (ValueError [''dropout should be a number in range [0, 1] representing the probability of an element being zeroed''])
      else if h = 0 then Inl (ValueError [''hidden_size must be greater than zero''])
      else if n = 0 then Inl (ValueError [''num_layers must be greater than zero''])
      else Inr \<lparr>kind = mode, input_size = i, rnn_hidden_size = h, num_layers = n,
                rnn_dropout = dropout, bidirectional = bi,
                run_packed = fst vals, run_seq = snd vals\<rparr>)"

definition nn_LSTM ::
  "rnn_values \<Rightarrow> nat \<Rightarrow> nat \<Rightarrow> nat \<Rightarrow> real \<Rightarrow> bool \<Rightarrow> error + rnn_layer" where
  "nn_LSTM vals i h n dropout bi = RNNBase_init LSTM vals i h n dropout bi"

definition nn_GRU ::
  "rnn_values \<Rightarrow> nat \<Rightarrow> nat \<Rightarrow> nat \<Rightarrow> real \<Rightarrow> bool \<Rightarrow> error + rnn_layer" where
  "nn_GRU vals i h n dropout bi = RNNBase_init GRU vals i h n dropout bi"

definition num_directions :: "rnn_layer \<Rightarrow> nat" where
  "num_directions l = (if bidirectional l then 2 else 1)"

definition hidden_shape_ok :: "rnn_layer \<Rightarrow> nat \<Rightarrow> tensor3 \<Rightarrow> bool" where
  "hidden_shape_ok l b h =
     (d0 h = num_layers l * num_directions l \<and> d1 h = b \<and> d2 h = rnn_hidden_size l)"

definition hidden_ok :: "rnn_layer \<Rightarrow> nat \<Rightarrow> hstate option \<Rightarrow> bool" where
  "hidden_ok l b hx =
     (case hx of
        None \<Rightarrow> True
      | Some (GRUState h) \<Rightarrow> kind l = GRU \<and> hidden_shape_ok l b h
      | Some (LSTMState h c) \<Rightarrow> kind l = LSTM \<and> hidden_shape_ok l b h \<and> hidden_shape_ok l b c)"

definition rnn_forward :: "rnn_layer \<Rightarrow> tensor3 \<Rightarrow> hstate option \<Rightarrow> error + (tensor3 \<times> hstate)" where
  "rnn_forward l x hx =
     (if d2 x \<noteq> input_size l then Inl RuntimeError
      else if \<not> hidden_ok l (d1 x) hx then Inl RuntimeError
      else (case run_seq l x hx of
              (out, hn) \<Rightarrow>
                Inr (\<lparr>d0 = d0 x, d1 = d1 x, d2 = num_directions l * rnn_hidden_size l,
                      at3 = out\<rparr>, hn)))"

definition rnn_forward_packed ::
  "rnn_layer \<Rightarrow> packed \<Rightarrow> hstate option \<Rightarrow> error + (packed \<times> hstate)" where
  "rnn_forward_packed l p hx =
     (if cols (pdata p) \<noteq> input_size l then Inl RuntimeError
      else if \<not> hidden_ok l (case batch_sizes p of [] \<Rightarrow> 0 | b # _ \<Rightarrow> b) hx
      then Inl RuntimeError
      else if rows (pdata p) < sum_list (batch_sizes p) then Inl RuntimeError
      else (case run_packed l p hx of
              (out, hn) \<Rightarrow>
                Inr (\<lparr>pdata = \<lparr>rows = sum_list (batch_sizes p),
                                cols = num_directions l * rnn_hidden_size l, at2 = out\<rparr>,
                      batch_sizes = batch_sizes p\<rparr>, hn)))"

section \<open>The encoder\<close>

text \<open>
  \<^verbatim>\<open>class EncoderRNN\<close>. \<open>RNN_TYPE\<close> is the module-level constant imported from the
  configuration; the constructor and \<^verbatim>\<open>forward\<close> both read it, so both take it as their
  first argument. The constructor has no \<^verbatim>\<open>raise\<close> of its own; it fails when the
  constructor of the recurrent layer it calls does.
\<close>

record encoder_rnn =
  enc_n_layers :: nat
  enc_hidden_size :: nat
  enc_embedding :: embedding
  enc_lstm :: "rnn_layer option"
  enc_gru :: "rnn_layer option"

definition EncoderRNN_init ::
  "string \<Rightarrow> rnn_values \<Rightarrow> nat \<Rightarrow> embedding \<Rightarrow> nat \<Rightarrow> real \<Rightarrow> error + encoder_rnn" where
  "EncoderRNN_init RNN_TYPE vals hidden_size emb n_layers dropout =
     (if RNN_TYPE = ''LSTM''
      then ebind (nn_LSTM vals hidden_size hidden_size n_layers
                    (if n_layers = 1 then 0 else dropout) True) (\<lambda>l.
           Inr \<lparr>enc_n_layers = n_layers, enc_hidden_size = hidden_size, enc_embedding = emb,
                enc_lstm = Some l, enc_gru = None\<rparr>)
      else if RNN_TYPE = ''GRU''
      then ebind (nn_GRU vals hidden_size hidden_size n_layers
                    (if n_layers = 1 then 0 else dropout) True) (\<lambda>l.
           Inr \<lparr>enc_n_layers = n_layers, enc_hidden_size = hidden_size, enc_embedding = emb,
                enc_lstm = None, enc_gru = Some l\<rparr>)
      else Inr \<lparr>enc_n_layers = n_layers, enc_hidden_size = hidden_size, enc_embedding = emb,
                enc_lstm = None, enc_gru = None\<rparr>)"

text \<open>\<^verbatim>\<open>x[:, :, :n]\<close> and \<^verbatim>\<open>x[:, :, n:]\<close>; Python slices clamp at the end of the dimension.\<close>

definition slice_dim2_to :: "tensor3 \<Rightarrow> nat \<Rightarrow> tensor3" where
  "slice_dim2_to x n = x\<lparr>d2 := min n (d2 x)\<rparr>"

definition slice_dim2_from :: "tensor3 \<Rightarrow> nat \<Rightarrow> tensor3" where
  "slice_dim2_from x n = x\<lparr>d2 := d2 x - n, at3 := \<lambda>i j k. at3 x i j (n + k)\<rparr>"

text \<open>
  The recurrent step of \<^verbatim>\<open>EncoderRNN.forward\<close> (lines 54 to 57): \<open>None\<close> when neither branch
  runs, so that \<^verbatim>\<open>outputs\<close> stays unbound; the LSTM branch ignores the \<open>hidden\<close> argument.
\<close>

definition encoder_rnn_step ::
  "string \<Rightarrow> encoder_rnn \<Rightarrow> packed \<Rightarrow> hstate option \<Rightarrow> error + (packed \<times> hstate) option" where
  "encoder_rnn_step RNN_TYPE self p hidden =
     (if RNN_TYPE = ''LSTM''
      then (case enc_lstm self of
              None \<Rightarrow> Inl AttributeError
            | Some l \<Rightarrow> ebind (rnn_forward_packed l p None) (\<lambda>r. Inr (Some r)))
      else if RNN_TYPE = ''GRU''
      then (case enc_gru self of
              None \<Rightarrow> Inl AttributeError
            | Some l \<Rightarrow> ebind (rnn_forward_packed l p hidden) (\<lambda>r. Inr (Some r)))
      else Inr None)"

definition EncoderRNN_forward ::
  "string \<Rightarrow> encoder_rnn \<Rightarrow> itensor2 \<Rightarrow> int list \<Rightarrow> hstate option \<Rightarrow> error + (tensor3 \<times> hstate)" where
  "EncoderRNN_forward RNN_TYPE self input_seq input_lengths hidden =
     ebind (embedding_forward (enc_embedding self) input_seq) (\<lambda>embedded.
     ebind (pack_padded_sequence embedded input_lengths) (\<lambda>p.
     ebind (encoder_rnn_step RNN_TYPE self p hidden) (\<lambda>r.
     (case r of
        None \<Rightarrow> Inl UnboundLocalError
      | Some (outputs, hidden') \<Rightarrow>
          ebind (pad_packed_sequence outputs) (\<lambda>outputs.
          ebind (torch_add (slice_dim2_to outputs (enc_hidden_size self))
                           (slice_dim2_from outputs (enc_hidden_size self))) (\<lambda>outputs.
          Inr (outputs, hidden')))))))"

text \<open>
  The part of \<^verbatim>\<open>EncoderRNN.forward\<close> before the two directions are summed (lines 50 to
  60): the unpacked output of the recurrent layer, and the final hidden state.
\<close>

definition encoder_unpacked ::
  "string \<Rightarrow> encoder_rnn \<Rightarrow> itensor2 \<Rightarrow> int list \<Rightarrow> hstate option \<Rightarrow> error + (tensor3 \<times> hstate)" where
  "encoder_unpacked RNN_TYPE self input_seq input_lengths hidden =
     ebind (embedding_forward (enc_embedding self) input_seq) (\<lambda>embedded.
     ebind (pack_padded_sequence embedded input_lengths) (\<lambda>p.
     ebind (encoder_rnn_step RNN_TYPE self p hidden) (\<lambda>r.
     (case r of
        None \<Rightarrow> Inl UnboundLocalError
      | Some (outputs, hidden') \<Rightarrow>
          ebind (pad_packed_sequence outputs) (\<lambda>outputs. Inr (outputs, hidden'))))))"

section \<open>The decoder\<close>

subsection \<open>Tensor operations of the decoding step\<close>

text \<open>
  \<^verbatim>\<open>squeeze(d)\<close> drops dimension \<open>d\<close> only when its size is 1, so the rank of its result
  depends on the shape; the operations after it are therefore defined on both ranks.
\<close>

datatype tensor = T2 tensor2 | T3 tensor3

definition transpose01 :: "tensor3 \<Rightarrow> tensor3" where
  "transpose01 x = \<lparr>d0 = d1 x, d1 = d0 x, d2 = d2 x, at3 = \<lambda>i j k. at3 x j i k\<rparr>"

text \<open>\<^verbatim>\<open>a.bmm(b)\<close>: a batch of matrix products; batch sizes and inner sizes must agree.\<close>

definition torch_bmm :: "tensor3 \<Rightarrow> tensor3 \<Rightarrow> error + tensor3" where
  "torch_bmm a b =
     (if d0 a = d0 b \<and> d2 a = d1 b
      then Inr \<lparr>d0 = d0 a, d1 = d1 a, d2 = d2 b,
                at3 = \<lambda>i j k. (\<Sum>m<d2 a. at3 a i j m * at3 b i m k)\<rparr>
      else Inl RuntimeError)"

definition squeeze0 :: "tensor3 \<Rightarrow> tensor" where
  "squeeze0 x =
     (if d0 x = 1 then T2 \<lparr>rows = d1 x, cols = d2 x, at2 = \<lambda>i j. at3 x 0 i j\<rparr> else T3 x)"

definition squeeze1 :: "tensor3 \<Rightarrow> tensor" where
  "squeeze1 x =
     (if d1 x = 1 then T2 \<lparr>rows = d0 x, cols = d2 x, at2 = \<lambda>i j. at3 x i 0 j\<rparr> else T3 x)"

text \<open>\<^verbatim>\<open>torch.cat((x, y), 1)\<close>: equal ranks, and all dimensions but dimension 1 must agree.\<close>

fun torch_cat_dim1 :: "tensor \<Rightarrow> tensor \<Rightarrow> error + tensor" where
  "torch_cat_dim1 (T2 x) (T2 y) =
     (if rows x = rows y
      then Inr (T2 \<lparr>rows = rows x, cols = cols x + cols y,
                    at2 = \<lambda>i j. if j < cols x then at2 x i j else at2 y i (j - cols x)\<rparr>)
      else Inl RuntimeError)"
| "torch_cat_dim1 (T3 x) (T3 y) =
     (if d0 x = d0 y \<and> d2 x = d2 y
      then Inr (T3 \<lparr>d0 = d0 x, d1 = d1 x + d1 y, d2 = d2 x,
                    at3 = \<lambda>i j k. if j < d1 x then at3 x i j k else at3 y i (j - d1 x) k\<rparr>)
      else Inl RuntimeError)"
| "torch_cat_dim1 _ _ = Inl RuntimeError"

definition linear_forward2 :: "linear \<Rightarrow> tensor2 \<Rightarrow> error + tensor2" where
  "linear_forward2 l x =
     (if cols x \<noteq> in_features l then Inl RuntimeError
      else Inr \<lparr>rows = rows x, cols = out_features l,
                at2 = \<lambda>i q. (\<Sum>k<in_features l. at2 x i k * weight l q k) + bias l q\<rparr>)"

fun linear_forward :: "linear \<Rightarrow> tensor \<Rightarrow> error + tensor" where
  "linear_forward l (T2 x) = ebind (linear_forward2 l x) (\<lambda>y. Inr (T2 y))"
| "linear_forward l (T3 x) = ebind (linear_forward3 l x) (\<lambda>y. Inr (T3 y))"

definition tanh2 :: "tensor2 \<Rightarrow> tensor2" where
  "tanh2 x = x\<lparr>at2 := \<lambda>i j. tanh (at2 x i j)\<rparr>"

fun torch_tanh :: "tensor \<Rightarrow> tensor" where
  "torch_tanh (T2 x) = T2 (tanh2 x)"
| "torch_tanh (T3 x) = T3 (tanh3 x)"

definition softmax3_dim1 :: "tensor3 \<Rightarrow> tensor3" where
  "softmax3_dim1 x =
     x\<lparr>at3 := \<lambda>i j k. exp (at3 x i j k) / (\<Sum>m<d1 x. exp (at3 x i m k))\<rparr>"

fun F_softmax_dim1 :: "tensor \<Rightarrow> tensor" where
  "F_softmax_dim1 (T2 x) = T2 (softmax_dim1 x)"
| "F_softmax_dim1 (T3 x) = T3 (softmax3_dim1 x)"

subsection \<open>\<^verbatim>\<open>class LuongAttnDecoderRNN\<close>\<close>

record luong_attn_decoder_rnn =
  dec_attn_model :: string
  dec_hidden_size :: nat
  dec_output_size :: nat
  dec_n_layers :: nat
  dec_dropout :: real
  dec_embedding :: embedding
  dec_embedding_dropout :: dropout_layer
  dec_lstm :: "rnn_layer option"
  dec_gru :: "rnn_layer option"
  dec_concat :: linear
  dec_out :: linear
  dec_attn :: attn

text \<open>The values the library puts into the layers the constructor creates.\<close>

record decoder_values =
  dv_dropout :: "tensor3 \<Rightarrow> nat \<Rightarrow> nat \<Rightarrow> nat \<Rightarrow> real"
  dv_rnn :: rnn_values
  dv_concat :: linear_values
  dv_out :: linear_values
  dv_attn :: linear_values
  dv_v :: "nat \<Rightarrow> real"

text \<open>
  The recurrent layer of the decoder (lines 128 to 141): the attributes \<^verbatim>\<open>self.lstm\<close> and
  \<^verbatim>\<open>self.gru\<close> after the two branches, neither being set for another \<open>RNN_TYPE\<close>.
\<close>

definition decoder_rnn_layers ::
  "string \<Rightarrow> rnn_values \<Rightarrow> nat \<Rightarrow> nat \<Rightarrow> real
     \<Rightarrow> error + (rnn_layer option \<times> rnn_layer option)" where
  "decoder_rnn_layers RNN_TYPE vals hidden_size n_layers dropout =
     (if RNN_TYPE = ''LSTM''
      then ebind (nn_LSTM vals hidden_size hidden_size n_layers
                    (if n_layers = 1 then 0 else dropout) False) (\<lambda>l. Inr (Some l, None))
      else if RNN_TYPE = ''GRU''
      then ebind (nn_GRU vals hidden_size hidden_size n_layers
                    (if n_layers = 1 then 0 else dropout) False) (\<lambda>l. Inr (None, Some l))
      else Inr (None, None))"

text \<open>
  The constructor runs its statements in the order of the source: the dropout layer (line
  127), the recurrent layer, the two linear layers, and the attention layer last (line 146).
\<close>

definition LuongAttnDecoderRNN_init ::
  "string \<Rightarrow> decoder_values \<Rightarrow> string \<Rightarrow> embedding \<Rightarrow> nat \<Rightarrow> nat \<Rightarrow> nat \<Rightarrow> real
     \<Rightarrow> error + luong_attn_decoder_rnn" where
  "LuongAttnDecoderRNN_init RNN_TYPE vals attn_model emb hidden_size output_size n_layers dropout =
     ebind (nn_Dropout (dv_dropout vals) dropout) (\<lambda>embedding_dropout.
     ebind (decoder_rnn_layers RNN_TYPE (dv_rnn vals) hidden_size n_layers dropout) (\<lambda>layers.
     ebind (Attn_init (dv_attn vals) (dv_v vals) attn_model hidden_size) (\<lambda>a.
       Inr \<lparr>dec_attn_model = attn_model, dec_hidden_size = hidden_size,
            dec_output_size = output_size, dec_n_layers = n_layers, dec_dropout = dropout,
            dec_embedding = emb,
            dec_embedding_dropout = embedding_dropout,
            dec_lstm = fst layers,
            dec_gru = snd layers,
            dec_concat = nn_Linear (dv_concat vals) (hidden_size * 2) hidden_size,
            dec_out = nn_Linear (dv_out vals) hidden_size output_size,
            dec_attn = a\<rparr>)))"

text \<open>
  The recurrent step of \<^verbatim>\<open>LuongAttnDecoderRNN.forward\<close> (lines 155 to 158): \<open>None\<close> when
  neither branch runs, so that \<^verbatim>\<open>rnn_output\<close> stays unbound.
\<close>

definition decoder_rnn_step ::
  "string \<Rightarrow> luong_attn_decoder_rnn \<Rightarrow> tensor3 \<Rightarrow> hstate option
     \<Rightarrow> error + (tensor3 \<times> hstate) option" where
  "decoder_rnn_step RNN_TYPE self embedded last_hidden =
     (if RNN_TYPE = ''LSTM''
      then (case dec_lstm self of
              None \<Rightarrow> Inl AttributeError
            | Some l \<Rightarrow> ebind (rnn_forward l embedded last_hidden) (\<lambda>r. Inr (Some r)))
      else if RNN_TYPE = ''GRU''
      then (case dec_gru self of
              None \<Rightarrow> Inl AttributeError
            | Some l \<Rightarrow> ebind (rnn_forward l embedded last_hidden) (\<lambda>r. Inr (Some r)))
      else Inr None)"

definition LuongAttnDecoderRNN_forward ::
  "string \<Rightarrow> luong_attn_decoder_rnn \<Rightarrow> itensor2 \<Rightarrow> hstate option \<Rightarrow> tensor3
     \<Rightarrow> error + (tensor \<times> hstate)" where
  "LuongAttnDecoderRNN_forward RNN_TYPE self input_step last_hidden encoder_outputs =
     ebind (embedding_forward (dec_embedding self) input_step) (\<lambda>embedded.
     (let embedded = dropout_forward (dec_embedding_dropout self) embedded in
      ebind (decoder_rnn_step RNN_TYPE self embedded last_hidden) (\<lambda>r.
      (case r of
         None \<Rightarrow> Inl UnboundLocalError
       | Some (rnn_output, hidden) \<Rightarrow>
           ebind (Attn_forward (dec_attn self) rnn_output encoder_outputs) (\<lambda>attn_weights.
           ebind (torch_bmm attn_weights (transpose01 encoder_outputs)) (\<lambda>context.
           ebind (torch_cat_dim1 (squeeze0 rnn_output) (squeeze1 context)) (\<lambda>concat_input.
           ebind (linear_forward (dec_concat self) concat_input) (\<lambda>c.
           (let concat_output = torch_tanh c in
            ebind (linear_forward (dec_out self) concat_output) (\<lambda>output.
            Inr (F_softmax_dim1 output, hidden)))))))))))"

section \<open>The module body\<close>

text \<open>
  The statements \<^verbatim>\<open>model.py\<close> runs when it is imported. The names it imports from
  \<^verbatim>\<open>config\<close> are the fields of \<open>config\<close>; \<^verbatim>\<open>voc.num_words\<close> and whether the machine
  has a usable CUDA device are arguments. The \<^verbatim>\<open>print\<close> statements and the parameter
  counts they print only write to standard output and are left out.
\<close>

datatype device = CPU | CUDA

record config =
  DEVICE :: device
  LEARNING_RATE :: real
  DECODER_LEARNING_RATIO :: real
  ATTN_MODEL :: string
  HIDDEN_SIZE :: nat
  ENCODER_N_LAYERS :: nat
  DECODER_N_LAYERS :: nat
  DROPOUT :: real
  RNN_TYPE :: string

text \<open>
  An optimizer keeps, for each parameter it has already updated, a dictionary of named
  values; a value is a tensor on some device or something else (a step counter).
  \<^verbatim>\<open>optim.Adam\<close> refuses a negative learning rate and a negative weight decay (its other
  hyperparameters keep their defaults here, and neither model has an empty list of
  parameters, both holding the embedding) and starts with no such state.
\<close>

datatype state_value = TensorValue device | OtherValue

type_synonym optimizer_state = "(nat \<times> (string \<times> state_value) list) list"

datatype parameters =
    EncoderParameters encoder_rnn
  | DecoderParameters luong_attn_decoder_rnn

record optimizer =
  opt_class :: string
  opt_params :: parameters
  lr :: real
  weight_decay :: real
  opt_state :: optimizer_state

definition optim_Adam :: "parameters \<Rightarrow> real \<Rightarrow> real \<Rightarrow> error + optimizer" where
  "optim_Adam params lr' weight_decay' =
     (if lr' < 0 then Inl (ValueError [''Invalid learning rate''])
      else if weight_decay' < 0 then Inl (ValueError [''Invalid weight_decay value''])
      else Inr \<lparr>opt_class = ''Adam'', opt_params = params, lr = lr',
                weight_decay = weight_decay', opt_state = []\<rparr>)"

text \<open>
  \<^verbatim>\<open>module.to(device)\<close> and \<^verbatim>\<open>tensor.cuda()\<close> return the device that holds the data
  afterwards; a CUDA device that is not there makes them raise.
\<close>

definition module_to :: "bool \<Rightarrow> device \<Rightarrow> error + device" where
  "module_to cuda_available dev =
     (if dev = CUDA \<and> \<not> cuda_available then Inl CudaError else Inr dev)"

definition tensor_cuda :: "bool \<Rightarrow> error + device" where
  "tensor_cuda cuda_available = (if cuda_available then Inr CUDA else Inl CudaError)"

text \<open>The two loops at the end of the module (lines 217 to 225), one optimizer each.\<close>

fun cuda_items :: "bool \<Rightarrow> (string \<times> state_value) list \<Rightarrow> error + (string \<times> state_value) list" where
  "cuda_items cuda_available [] = Inr []"
| "cuda_items cuda_available ((k, v) # kvs) =
     (case v of
        TensorValue d \<Rightarrow>
          ebind (tensor_cuda cuda_available) (\<lambda>d'.
          ebind (cuda_items cuda_available kvs) (\<lambda>r. Inr ((k, TensorValue d') # r)))
      | OtherValue \<Rightarrow> ebind (cuda_items cuda_available kvs) (\<lambda>r. Inr ((k, v) # r)))"

fun cuda_state :: "bool \<Rightarrow> optimizer_state \<Rightarrow> error + optimizer_state" where
  "cuda_state cuda_available [] = Inr []"
| "cuda_state cuda_available ((p, st) # rest) =
     ebind (cuda_items cuda_available st) (\<lambda>st'.
     ebind (cuda_state cuda_available rest) (\<lambda>r. Inr ((p, st') # r)))"

record module_values =
  mv_embedding :: "nat \<Rightarrow> nat \<Rightarrow> real"
  mv_encoder :: rnn_values
  mv_decoder :: decoder_values

text \<open>
  The module's names after the import. \<open>encoder_device\<close> and \<open>decoder_device\<close> are the
  devices that hold the parameters of the two models; the library builds them on the CPU.
\<close>

record module_state =
  module_embedding :: embedding
  encoder :: encoder_rnn
  decoder :: luong_attn_decoder_rnn
  encoder_device :: device
  decoder_device :: device
  encoder_optimizer :: optimizer
  decoder_optimizer :: optimizer

definition model_module :: "config \<Rightarrow> nat \<Rightarrow> bool \<Rightarrow> module_values \<Rightarrow> error + module_state" where
  "model_module cfg num_words cuda_available vals =
     (let emb = nn_Embedding (mv_embedding vals) num_words (HIDDEN_SIZE cfg) in
      ebind (EncoderRNN_init (RNN_TYPE cfg) (mv_encoder vals) (HIDDEN_SIZE cfg) emb
               (ENCODER_N_LAYERS cfg) (DROPOUT cfg)) (\<lambda>enc.
      ebind (LuongAttnDecoderRNN_init (RNN_TYPE cfg) (mv_decoder vals) (ATTN_MODEL cfg) emb
               (HIDDEN_SIZE cfg) num_words (DECODER_N_LAYERS cfg) (DROPOUT cfg)) (\<lambda>dec.
      ebind (module_to cuda_available (DEVICE cfg)) (\<lambda>enc_dev.
      ebind (module_to cuda_available (DEVICE cfg)) (\<lambda>dec_dev.
      ebind (optim_Adam (EncoderParameters enc) (LEARNING_RATE cfg) 0) (\<lambda>enc_opt.
      ebind (optim_Adam (DecoderParameters dec)
               (LEARNING_RATE cfg * DECODER_LEARNING_RATIO cfg) (1 / 100000)) (\<lambda>dec_opt.
      ebind (cuda_state cuda_available (opt_state enc_opt)) (\<lambda>s1.
      ebind (cuda_state cuda_available (opt_state dec_opt)) (\<lambda>s2.
      Inr \<lparr>module_embedding = emb, encoder = enc, decoder = dec,
           encoder_device = enc_dev, decoder_device = dec_dev,
           encoder_optimizer = enc_opt\<lparr>opt_state := s1\<rparr>,
           decoder_optimizer = dec_opt\<lparr>opt_state := s2\<rparr>\<rparr>)))))))))"


section \<open>The attention scores as the specification words them\<close>

text \<open>
  The claims describe the scores by formulas over single entries, for a decoder state
  \<open>hidden\<close> of one time step (shape \<open>1 \<times> B \<times> H\<close>) and encoder outputs \<open>enc\<close> of shape
  \<open>T \<times> B \<times> H\<close>. These definitions follow those words; the theorems compare them with
  the tensor programs above. \<open>spec_softmax x n\<close> normalises the \<open>n\<close> numbers
  \<open>x 0, \<dots>, x (n - 1)\<close>; \<open>spec_linear (W, b) n x\<close> is the learned linear map on a vector
  of \<open>n\<close> features.
\<close>

definition spec_softmax :: "(nat \<Rightarrow> real) \<Rightarrow> nat \<Rightarrow> nat \<Rightarrow> real" where
  "spec_softmax x n i = exp (x i) / (\<Sum>j<n. exp (x j))"

definition spec_dot_energy :: "tensor3 \<Rightarrow> tensor3 \<Rightarrow> nat \<Rightarrow> nat \<Rightarrow> real" where
  "spec_dot_energy hidden enc t b = (\<Sum>k<d2 enc. at3 hidden 0 b k * at3 enc t b k)"

definition spec_linear :: "linear_values \<Rightarrow> nat \<Rightarrow> (nat \<Rightarrow> real) \<Rightarrow> nat \<Rightarrow> real" where
  "spec_linear vals n x q = (\<Sum>k<n. x k * fst vals q k) + snd vals q"

definition spec_general_energy :: "linear_values \<Rightarrow> tensor3 \<Rightarrow> tensor3 \<Rightarrow> nat \<Rightarrow> nat \<Rightarrow> real" where
  "spec_general_energy vals hidden enc t b =
     (\<Sum>q<d2 enc. at3 hidden 0 b q * spec_linear vals (d2 enc) (at3 enc t b) q)"

definition spec_concat_energy ::
  "linear_values \<Rightarrow> tensor3 \<Rightarrow> tensor3 \<Rightarrow> nat \<Rightarrow> nat \<Rightarrow> nat \<Rightarrow> real" where
  "spec_concat_energy vals hidden enc t b q =
     tanh (spec_linear vals (2 * d2 enc)
             (\<lambda>k. if k < d2 enc then at3 hidden 0 b k else at3 enc t b (k - d2 enc)) q)"

definition spec_concat_score ::
  "linear_values \<Rightarrow> (nat \<Rightarrow> real) \<Rightarrow> tensor3 \<Rightarrow> tensor3 \<Rightarrow> nat \<Rightarrow> nat \<Rightarrow> real" where
  "spec_concat_score vals v hidden enc t b =
     (\<Sum>q<d2 enc. v q * spec_concat_energy vals hidden enc t b q)"

definition spec_attn_energy ::
  "string \<Rightarrow> linear_values \<Rightarrow> (nat \<Rightarrow> real) \<Rightarrow> tensor3 \<Rightarrow> tensor3 \<Rightarrow> nat \<Rightarrow> nat \<Rightarrow> real" where
  "spec_attn_energy m lv vv hidden enc =
     (if m = ''general'' then spec_general_energy lv hidden enc
      else if m = ''concat'' then spec_concat_score lv vv hidden enc
      else spec_dot_energy hidden enc)"

text \<open>
  The decoding step as the claims word it: the context vector of batch element \<open>b\<close> is the sum
  over the encoder time steps of the encoder output vectors, weighted by the attention weights
  \<open>w\<close>; the output is the softmax of the output layer applied to the \<open>tanh\<close> of the concat
  layer applied to the features of the recurrent output followed by those of the context.
\<close>

definition spec_context :: "tensor3 \<Rightarrow> tensor3 \<Rightarrow> nat \<Rightarrow> nat \<Rightarrow> real" where
  "spec_context w enc b h = (\<Sum>t<d0 enc. at3 w b 0 t * at3 enc t b h)"

definition spec_decoder_output ::
  "linear \<Rightarrow> linear \<Rightarrow> tensor3 \<Rightarrow> (nat \<Rightarrow> nat \<Rightarrow> real) \<Rightarrow> nat \<Rightarrow> nat \<Rightarrow> real" where
  "spec_decoder_output concat_layer out_layer rnn_output context b =
     spec_softmax
       (spec_linear (weight out_layer, bias out_layer) (in_features out_layer)
          (\<lambda>h. tanh (spec_linear (weight concat_layer, bias concat_layer)
                        (in_features concat_layer)
                        (\<lambda>k. if k < d2 rnn_output then at3 rnn_output 0 b k
                             else context b (k - d2 rnn_output)) h)))
       (out_features out_layer)"

section \<open>Valid inputs\<close>

text \<open>
  What the claims call valid inputs. The word indexes of a batch must lie in the vocabulary of
  the embedding. The lengths of a padded batch of \<open>B\<close> sequences and \<open>T\<close> time steps are
  valid when there is one length per sequence, each is positive and at most \<open>T\<close>, and they
  are in non-increasing order.
\<close>

definition valid_indices :: "embedding \<Rightarrow> itensor2 \<Rightarrow> bool" where
  "valid_indices emb idx \<longleftrightarrow>
     (\<forall>i\<in>{..<irows idx}. \<forall>j\<in>{..<icols idx}.
        0 \<le> iat idx i j \<and> iat idx i j < int (num_embeddings emb))"

definition valid_lengths :: "nat \<Rightarrow> nat \<Rightarrow> int list \<Rightarrow> bool" where
  "valid_lengths T B lengths \<longleftrightarrow>
     length lengths = B \<and> (\<forall>l\<in>set lengths. 0 < l \<and> l \<le> int T) \<and>
     sorted_wrt (\<lambda>a b. b \<le> a) lengths"

text \<open>
  A configuration is valid when the constructors of the library accept its hyperparameters:
  an attention method of the three, a dropout probability in \<open>[0, 1]\<close>, learning rates that
  are not negative and, when a recurrent layer is built, a positive hidden size and positive
  numbers of layers.
\<close>

definition valid_config :: "config \<Rightarrow> bool" where
  "valid_config cfg \<longleftrightarrow>
     ATTN_MODEL cfg \<in> {''dot'', ''general'', ''concat''} \<and>
     0 \<le> DROPOUT cfg \<and> DROPOUT cfg \<le> 1 \<and>
     0 \<le> LEARNING_RATE cfg \<and> 0 \<le> LEARNING_RATE cfg * DECODER_LEARNING_RATIO cfg \<and>
     (RNN_TYPE cfg = ''LSTM'' \<or> RNN_TYPE cfg = ''GRU'' \<longrightarrow>
        0 < HIDDEN_SIZE cfg \<and> 0 < ENCODER_N_LAYERS cfg \<and> 0 < DECODER_N_LAYERS cfg)"

section \<open>Example inputs\<close>

text \<open>
  Concrete layers and tensors at which the theorems below are instantiated: a decoder state
  of all ones (one step, batch of one, two features), encoder outputs of two steps whose
  entries equal the time step, and layers whose weights are all 1 and whose biases are 0.
\<close>

definition ex_lin :: linear_values where
  "ex_lin = (\<lambda>q k. 1, \<lambda>q. 0)"

definition ex_v :: "nat \<Rightarrow> real" where
  "ex_v = (\<lambda>q. 1)"

definition ex_hidden :: tensor3 where
  "ex_hidden = \<lparr>d0 = 1, d1 = 1, d2 = 2, at3 = \<lambda>i j k. 1\<rparr>"

definition ex_enc :: tensor3 where
  "ex_enc = \<lparr>d0 = 2, d1 = 1, d2 = 2, at3 = \<lambda>t b k. real t\<rparr>"

definition ex_attn :: "string \<Rightarrow> attn" where
  "ex_attn m =
     \<lparr>attn_method = m, attn_hidden_size = 2,
      attn_linear = (if m = ''general'' then Some (nn_Linear ex_lin 2 2)
                     else if m = ''concat'' then Some (nn_Linear ex_lin 4 2) else None),
      attn_v = (if m = ''concat'' then Some (nn_Parameter ex_v 2) else None)\<rparr>"

text \<open>
  An embedding of three words with one feature, a recurrent layer whose output is 1 in the
  forward half and 2 in the backward half, the bidirectional GRU encoder with one layer
  that the constructor builds from them, and a batch of one sequence of two words.
\<close>

definition ex_embedding :: embedding where
  "ex_embedding = nn_Embedding (\<lambda>w k. real w) 3 1"

definition ex_state :: hstate where
  "ex_state = GRUState \<lparr>d0 = 2, d1 = 1, d2 = 1, at3 = \<lambda>i j k. 0\<rparr>"

definition ex_rnn :: rnn_values where
  "ex_rnn = (\<lambda>p hx. (\<lambda>r c. if c = 0 then 1 else 2, ex_state),
             \<lambda>x hx. (\<lambda>i j k. 1, ex_state))"

definition ex_gru :: "bool \<Rightarrow> nat \<Rightarrow> rnn_layer" where
  "ex_gru bi h =
     \<lparr>kind = GRU, input_size = h, rnn_hidden_size = h, num_layers = 1, rnn_dropout = 0,
      bidirectional = bi, run_packed = fst ex_rnn, run_seq = snd ex_rnn\<rparr>"

definition ex_encoder :: encoder_rnn where
  "ex_encoder =
     \<lparr>enc_n_layers = 1, enc_hidden_size = 1, enc_embedding = ex_embedding,
      enc_lstm = None, enc_gru = Some (ex_gru True 1)\<rparr>"

definition ex_input :: itensor2 where
  "ex_input = \<lparr>irows = 2, icols = 1, iat = \<lambda>i j. 1\<rparr>"

text \<open>
  A padded batch of two sequences with two time steps, and a decoder's layer values: a
  dropout that changes nothing, and linear layers and a recurrent layer as above.
\<close>

definition ex_batch :: tensor3 where
  "ex_batch = \<lparr>d0 = 2, d1 = 2, d2 = 1, at3 = \<lambda>t b k. 1\<rparr>"

definition ex_decoder_values :: decoder_values where
  "ex_decoder_values =
     \<lparr>dv_dropout = at3, dv_rnn = ex_rnn, dv_concat = ex_lin, dv_out = ex_lin,
      dv_attn = ex_lin, dv_v = ex_v\<rparr>"

definition ex_step :: itensor2 where
  "ex_step = \<lparr>irows = 1, icols = 1, iat = \<lambda>i j. 1\<rparr>"

text \<open>
  A configuration for the CPU with dot attention and a GRU of two features, and the values
  of the layers the module creates under it; \<open>ex_cuda_config\<close> asks for a CUDA device instead.
\<close>

definition ex_config :: config where
  "ex_config =
     \<lparr>DEVICE = CPU, LEARNING_RATE = 1 / 10000, DECODER_LEARNING_RATIO = 5,
      ATTN_MODEL = ''dot'', HIDDEN_SIZE = 2, ENCODER_N_LAYERS = 1, DECODER_N_LAYERS = 1,
      DROPOUT = 1 / 10, RNN_TYPE = ''GRU''\<rparr>"

definition ex_cuda_config :: config where
  "ex_cuda_config = ex_config\<lparr>DEVICE := CUDA\<rparr>"

definition ex_module_values :: module_values where
  "ex_module_values =
     \<lparr>mv_embedding = (\<lambda>w k. real w), mv_encoder = ex_rnn, mv_decoder = ex_decoder_values\<rparr>"

text \<open>The embedding the module builds under \<open>ex_config\<close> for a vocabulary of three words.\<close>

definition ex_embedding2 :: embedding where
  "ex_embedding2 = nn_Embedding (\<lambda>w k. real w) 3 2"


definition ex_bad_input :: itensor2 where
  "ex_bad_input = \<lparr>irows = 2, icols = 1, iat = \<lambda>i j. 3\<rparr>"

section \<open>Sequencing of errors\<close>

lemma ebind_Inr_iff: "ebind m f = Inr y \<longleftrightarrow> (\<exists>x. m = Inr x \<and> f x = Inr y)"
  by (cases m) (simp_all add: ebind_def)

lemma ebind_Inl_iff: "ebind m f = Inl e \<longleftrightarrow> m = Inl e \<or> (\<exists>x. m = Inr x \<and> f x = Inl e)"
  by (cases m) (simp_all add: ebind_def)

lemma ebind_simps [simp]: "ebind (Inl e) f = Inl e" "ebind (Inr x) f = f x"
  by (simp_all add: ebind_def)

section \<open>Attention scores and weights\<close>

lemma broadcast_size_simps [simp]:
  "broadcast_size n n = Some n" "broadcast_size (Suc 0) n = Some n" "broadcast_size n (Suc 0) = Some n"
  by (auto simp: broadcast_size_def)

lemma bidx_in_range: "i < n \<Longrightarrow> bidx n i = i"
  by (auto simp: bidx_def)

lemma bidx_one [simp]: "bidx (Suc 0) i = 0"
  by (simp add: bidx_def)

text \<open>The product of a one-step state with a sequence.\<close>

lemma torch_mul_canonical:
  assumes "d0 h = 1" "d1 h = d1 e" "d2 h = d2 e"
  shows "\<exists>P. torch_mul h e = Inr P \<and> d0 P = d0 e \<and> d1 P = d1 e \<and> d2 P = d2 e \<and>
           (\<forall>t<d0 e. \<forall>b<d1 e. \<forall>k<d2 e. at3 P t b k = at3 h 0 b k * at3 e t b k)"
  using assms by (simp add: torch_mul_def broadcast3_def bidx_in_range)

lemma dot_score_canonical:
  assumes "d0 h = 1" "d1 h = d1 e" "d2 h = d2 e"
  shows "\<exists>E. dot_score a h e = Inr E \<and> rows E = d0 e \<and> cols E = d1 e \<and>
           (\<forall>t<d0 e. \<forall>b<d1 e. at2 E t b = spec_dot_energy h e t b)"
proof -
  from torch_mul_canonical [OF assms] obtain P where
    P: "torch_mul h e = Inr P" "d0 P = d0 e" "d1 P = d1 e" "d2 P = d2 e"
       "\<forall>t<d0 e. \<forall>b<d1 e. \<forall>k<d2 e. at3 P t b k = at3 h 0 b k * at3 e t b k"
    by blast
  then show ?thesis
    by (simp add: dot_score_def torch_sum_dim2_def spec_dot_energy_def)
qed

lemma general_score_canonical:
  assumes "attn_linear a = Some (nn_Linear lv H H)" "d0 h = 1" "d1 h = d1 e" "d2 h = H" "d2 e = H"
  shows "\<exists>E. general_score a h e = Inr E \<and> rows E = d0 e \<and> cols E = d1 e \<and>
           (\<forall>t<d0 e. \<forall>b<d1 e. at2 E t b = spec_general_energy lv h e t b)"
proof -
  define L where "L = \<lparr>d0 = d0 e, d1 = d1 e, d2 = H,
     at3 = \<lambda>i j q. (\<Sum>k<H. at3 e i j k * fst lv q k) + snd lv q\<rparr>"
  have lin: "linear_forward3 (nn_Linear lv H H) e = Inr L"
    using assms by (simp add: linear_forward3_def nn_Linear_def L_def)
  have "d0 h = 1" "d1 h = d1 L" "d2 h = d2 L" using assms by (simp_all add: L_def)
  from torch_mul_canonical [OF this] obtain P where
    P: "torch_mul h L = Inr P" "d0 P = d0 L" "d1 P = d1 L" "d2 P = d2 L"
       "\<forall>t<d0 L. \<forall>b<d1 L. \<forall>k<d2 L. at3 P t b k = at3 h 0 b k * at3 L t b k"
    by blast
  show ?thesis
    using assms(1,5) lin P
    by (simp add: general_score_def torch_sum_dim2_def spec_general_energy_def spec_linear_def L_def)
qed

lemma expand0_one_step:
  assumes "d0 h = 1"
  shows "\<exists>X. expand0 h n = Inr X \<and> d0 X = n \<and> d1 X = d1 h \<and> d2 X = d2 h \<and>
           (\<forall>t<n. \<forall>b k. at3 X t b k = at3 h 0 b k)"
  using assms by (auto simp: expand0_def)

lemma concat_score_canonical:
  assumes "attn_linear a = Some (nn_Linear lv (H * 2) H)" "attn_v a = Some (nn_Parameter vv H)"
      and "d0 h = 1" "d1 h = d1 e" "d2 h = H" "d2 e = H"
  shows "\<exists>E. concat_score a h e = Inr E \<and> rows E = d0 e \<and> cols E = d1 e \<and>
           (\<forall>t<d0 e. \<forall>b<d1 e. at2 E t b = spec_concat_score lv vv h e t b)"
proof -
  from expand0_one_step [OF assms(3), of "d0 e"] obtain X where
    X: "expand0 h (d0 e) = Inr X" "d0 X = d0 e" "d1 X = d1 h" "d2 X = d2 h"
       "\<forall>t<d0 e. \<forall>b k. at3 X t b k = at3 h 0 b k"
    by blast
  define C where "C = \<lparr>d0 = d0 X, d1 = d1 X, d2 = d2 X + d2 e,
     at3 = \<lambda>i j k. if k < d2 X then at3 X i j k else at3 e i j (k - d2 X)\<rparr>"
  have cat: "torch_cat_dim2 X e = Inr C"
    using X assms by (simp add: torch_cat_dim2_def C_def)
  define A where "A = \<lparr>d0 = d0 C, d1 = d1 C, d2 = H,
     at3 = \<lambda>i j q. (\<Sum>k<H * 2. at3 C i j k * fst lv q k) + snd lv q\<rparr>"
  have lin: "linear_forward3 (nn_Linear lv (H * 2) H) C = Inr A"
    using X assms by (simp add: linear_forward3_def nn_Linear_def A_def C_def)
  define P where "P = \<lparr>d0 = d0 e, d1 = d1 e, d2 = H,
     at3 = \<lambda>i j k. at3 (as_rank3 (nn_Parameter vv H)) (bidx 1 i) (bidx 1 j) (bidx H k) *
                    at3 (tanh3 A) (bidx (d0 e) i) (bidx (d1 e) j) (bidx H k)\<rparr>"
  have mul: "torch_mul (as_rank3 (nn_Parameter vv H)) (tanh3 A) = Inr P"
    using X assms
    by (simp add: torch_mul_def broadcast3_def as_rank3_def nn_Parameter_def tanh3_def A_def C_def P_def)
  have score: "concat_score a h e = Inr (torch_sum_dim2 P)"
    using assms(1,2) X(1) cat lin mul by (simp add: concat_score_def Let_def)
  have val: "at2 (torch_sum_dim2 P) t b = spec_concat_score lv vv h e t b"
    if "t < d0 e" "b < d1 e" for t b
  proof -
    have "(\<Sum>k<H. at3 P t b k) = (\<Sum>q<H. vv q * spec_concat_energy lv h e t b q)"
    proof (rule sum.cong [OF refl])
      fix q assume "q \<in> {..<H}"
      then have q: "q < H" by simp
      have "at3 C t b k = (if k < H then at3 h 0 b k else at3 e t b (k - H))" for k
        using X assms that by (simp add: C_def)
      then have "(\<Sum>k<H * 2. at3 C t b k * fst lv q k) =
            (\<Sum>k<2 * H. (if k < H then at3 h 0 b k else at3 e t b (k - H)) * fst lv q k)"
        by (simp add: mult.commute)
      then show "at3 P t b q = vv q * spec_concat_energy lv h e t b q"
        using q that assms
        by (simp add: P_def as_rank3_def nn_Parameter_def tanh3_def A_def bidx_in_range
              spec_concat_energy_def spec_linear_def cong: if_cong)
    qed
    then show ?thesis
      using assms by (simp add: torch_sum_dim2_def P_def spec_concat_score_def)
  qed
  show ?thesis
    using score val by (simp add: torch_sum_dim2_def P_def)
qed

lemma normalised_scores:
  assumes "rows E = T" "cols E = B" "\<forall>t<T. \<forall>b<B. at2 E t b = en t b"
  shows "d0 (unsqueeze1 (softmax_dim1 (tensor_t E))) = B \<and>
         d1 (unsqueeze1 (softmax_dim1 (tensor_t E))) = 1 \<and>
         d2 (unsqueeze1 (softmax_dim1 (tensor_t E))) = T \<and>
         (\<forall>b<B. \<forall>t<T. at3 (unsqueeze1 (softmax_dim1 (tensor_t E))) b 0 t =
                          spec_softmax (\<lambda>t'. en t' b) T t)"
proof -
  have "(\<Sum>k<T. exp (at2 E k b)) = (\<Sum>j<T. exp (en j b))" if "b < B" for b
    by (rule sum.cong [OF refl]) (use assms that in simp)
  then show ?thesis
    using assms by (simp add: unsqueeze1_def softmax_dim1_def tensor_t_def spec_softmax_def)
qed

lemma spec_softmax_nonneg: "0 \<le> spec_softmax x n i"
  by (simp add: spec_softmax_def sum_nonneg)

lemma spec_softmax_sum: "0 < n \<Longrightarrow> (\<Sum>i<n. spec_softmax x n i) = 1"
proof -
  assume n: "0 < n"
  have "(\<Sum>j<n. exp (x j)) > 0"
    by (rule sum_pos) (use n in auto)
  then show ?thesis
    by (simp add: spec_softmax_def sum_divide_distrib [symmetric])
qed

lemma Attn_init_Inr:
  assumes "Attn_init lv vv m H = Inr a"
  shows "attn_method a = m" "m \<in> {''dot'', ''general'', ''concat''}"
        "m = ''general'' \<Longrightarrow> attn_linear a = Some (nn_Linear lv H H)"
        "m = ''concat'' \<Longrightarrow> attn_linear a = Some (nn_Linear lv (H * 2) H)"
        "m = ''concat'' \<Longrightarrow> attn_v a = Some (nn_Parameter vv H)"
  using assms by (auto simp: Attn_init_def split: if_splits)

lemma Attn_forward_dispatch:
  "attn_method a = ''dot'' \<Longrightarrow>
     Attn_forward a h e =
       ebind (dot_score a h e) (\<lambda>E. Inr (unsqueeze1 (softmax_dim1 (tensor_t E))))"
  "attn_method a = ''general'' \<Longrightarrow>
     Attn_forward a h e =
       ebind (general_score a h e) (\<lambda>E. Inr (unsqueeze1 (softmax_dim1 (tensor_t E))))"
  "attn_method a = ''concat'' \<Longrightarrow>
     Attn_forward a h e =
       ebind (concat_score a h e) (\<lambda>E. Inr (unsqueeze1 (softmax_dim1 (tensor_t E))))"
  by (simp_all add: Attn_forward_def)

lemma Attn_forward_canonical:
  assumes init: "Attn_init lv vv m H = Inr a"
      and sh: "d0 h = 1" "d1 h = d1 e" "d2 h = d2 e" "m \<noteq> ''dot'' \<longrightarrow> d2 e = H"
  shows "\<exists>w. Attn_forward a h e = Inr w \<and> d0 w = d1 e \<and> d1 w = 1 \<and> d2 w = d0 e \<and>
           (\<forall>b<d1 e. \<forall>t<d0 e.
              at3 w b 0 t = spec_softmax (\<lambda>t'. spec_attn_energy m lv vv h e t' b) (d0 e) t)"
proof -
  note a = Attn_init_Inr [OF init]
  have "\<exists>E. (if m = ''general'' then general_score a h e
             else if m = ''concat'' then concat_score a h e else dot_score a h e) = Inr E \<and>
            rows E = d0 e \<and> cols E = d1 e \<and>
            (\<forall>t<d0 e. \<forall>b<d1 e. at2 E t b = spec_attn_energy m lv vv h e t b)"
  proof (cases "m = ''general''")
    case True
    then show ?thesis
      using general_score_canonical [of a lv H h e] a(3) sh
      by (simp add: spec_attn_energy_def)
  next
    case False
    note ng = this
    show ?thesis
    proof (cases "m = ''concat''")
      case True
      then show ?thesis
        using concat_score_canonical [of a lv H vv h e] a(4,5) sh
        by (simp add: spec_attn_energy_def)
    next
      case False
      then show ?thesis
        using ng dot_score_canonical [of h e a] sh
        by (simp add: spec_attn_energy_def)
    qed
  qed
  then obtain E where
    E: "(if m = ''general'' then general_score a h e
         else if m = ''concat'' then concat_score a h e else dot_score a h e) = Inr E"
       "rows E = d0 e" "cols E = d1 e"
       "\<forall>t<d0 e. \<forall>b<d1 e. at2 E t b = spec_attn_energy m lv vv h e t b"
    by blast
  have fw: "Attn_forward a h e = Inr (unsqueeze1 (softmax_dim1 (tensor_t E)))"
    using E(1) a(1,2) by (auto simp: Attn_forward_def split: if_splits)
  show ?thesis
    using fw normalised_scores [OF E(2,3,4)] by simp
qed

text \<open>
  The weights over real entries. For every valid method, a decoder state of shape
  \<open>1 \<times> B \<times> H\<close> and encoder outputs of shape \<open>T \<times> B \<times> H\<close> with at least one time step (\<open>H\<close>
  being the layer's hidden size for \<^verbatim>\<open>general\<close> and \<^verbatim>\<open>concat\<close>), the weights have shape
  \<open>B \<times> 1 \<times> T\<close>, are non-negative and sum to 1 over the time steps of each batch element.
  This is a fact of the real numbers of this model only: the program computes in 32-bit
  floating point, where a softmax row sums to 1 up to rounding at best and consists of NaN
  once an energy has overflowed.
\<close>

lemma attn_weights_real_distribution:
  assumes "Attn_init lv vv m H = Inr a"
      and "d0 h = 1" "d1 h = d1 e" "d2 h = d2 e" "m \<noteq> ''dot'' \<longrightarrow> d2 e = H"
      and "0 < d0 e"
  shows "\<exists>w. Attn_forward a h e = Inr w \<and> d0 w = d1 e \<and> d1 w = 1 \<and> d2 w = d0 e \<and>
           (\<forall>b<d1 e. \<forall>t<d0 e. 0 \<le> at3 w b 0 t) \<and>
           (\<forall>b<d1 e. (\<Sum>t<d0 e. at3 w b 0 t) = 1)"
proof -
  from Attn_forward_canonical [OF assms(1-5)] obtain w where
    w: "Attn_forward a h e = Inr w" "d0 w = d1 e" "d1 w = 1" "d2 w = d0 e"
       "\<forall>b<d1 e. \<forall>t<d0 e.
          at3 w b 0 t = spec_softmax (\<lambda>t'. spec_attn_energy m lv vv h e t' b) (d0 e) t"
    by blast
  have "(\<Sum>t<d0 e. at3 w b 0 t) = 1" if "b < d1 e" for b
  proof -
    have "(\<Sum>t<d0 e. at3 w b 0 t) =
          (\<Sum>t<d0 e. spec_softmax (\<lambda>t'. spec_attn_energy m lv vv h e t' b) (d0 e) t)"
      by (rule sum.cong [OF refl]) (use w(5) that in simp)
    then show ?thesis
      using spec_softmax_sum [OF assms(6)] by simp
  qed
  then show ?thesis
    using w by (simp add: spec_softmax_nonneg)
qed

lemma attn_weights_real_distribution_example:
  "Attn_init ex_lin ex_v ''general'' 2 = Inr (ex_attn ''general'') \<and>
   d0 ex_hidden = 1 \<and> d1 ex_hidden = d1 ex_enc \<and> d2 ex_hidden = d2 ex_enc \<and> d2 ex_enc = 2 \<and>
   0 < d0 ex_enc \<and>
   (\<exists>w. Attn_forward (ex_attn ''general'') ex_hidden ex_enc = Inr w \<and>
        d0 w = 1 \<and> d1 w = 1 \<and> d2 w = 2 \<and> 0 \<le> at3 w 0 0 0 \<and> 0 \<le> at3 w 0 0 1 \<and>
        at3 w 0 0 0 + at3 w 0 0 1 = 1)"
proof -
  have i: "Attn_init ex_lin ex_v ''general'' 2 = Inr (ex_attn ''general'')"
    by (simp add: Attn_init_def ex_attn_def)
  have s: "d0 ex_hidden = 1" "d1 ex_hidden = d1 ex_enc" "d2 ex_hidden = d2 ex_enc"
          "''general'' \<noteq> ''dot'' \<longrightarrow> d2 ex_enc = 2" "0 < d0 ex_enc"
    by (simp_all add: ex_hidden_def ex_enc_def)
  from attn_weights_real_distribution [OF i s] obtain w where
    "Attn_forward (ex_attn ''general'') ex_hidden ex_enc = Inr w" "d0 w = d1 ex_enc" "d1 w = 1"
    "d2 w = d0 ex_enc" "\<forall>b<d1 ex_enc. \<forall>t<d0 ex_enc. 0 \<le> at3 w b 0 t"
    "\<forall>b<d1 ex_enc. (\<Sum>t<d0 ex_enc. at3 w b 0 t) = 1"
    by blast
  then show ?thesis
    using i s by (auto simp: ex_enc_def ex_hidden_def numeral_2_eq_2)
qed

text \<open>
  With encoder outputs of shape \<open>0 \<times> 1 \<times> 2\<close>, which match a state of shape \<open>1 \<times> 1 \<times> 2\<close>,
  \<^verbatim>\<open>Attn.forward\<close> returns a tensor of shape \<open>1 \<times> 1 \<times> 0\<close>: the softmax runs over an empty
  dimension and the entries of the one batch element sum to 0.
\<close>

lemma attn_weights_real_no_step:
  "Attn_init ex_lin ex_v ''dot'' 2 = Inr (ex_attn ''dot'') \<and>
   d0 ex_hidden = 1 \<and> d1 ex_hidden = d1 (ex_enc\<lparr>d0 := 0\<rparr>) \<and>
   d2 ex_hidden = d2 (ex_enc\<lparr>d0 := 0\<rparr>) \<and>
   (case Attn_forward (ex_attn ''dot'') ex_hidden (ex_enc\<lparr>d0 := 0\<rparr>) of
      Inl err \<Rightarrow> False
    | Inr w \<Rightarrow> d0 w = 1 \<and> d1 w = 1 \<and> d2 w = 0 \<and> (\<Sum>t<d2 w. at3 w 0 0 t) = 0 \<and>
              (\<Sum>t<d2 w. at3 w 0 0 t) \<noteq> 1)"
  by (simp add: Attn_init_def ex_attn_def Attn_forward_def dot_score_def torch_mul_def
        broadcast3_def broadcast_size_def ex_hidden_def ex_enc_def torch_sum_dim2_def
        tensor_t_def softmax_dim1_def unsqueeze1_def)

text \<open>
  Claim C3. \<^verbatim>\<open>Attn.forward\<close> computes the energies with the score function of the configured
  method and returns their transpose, normalised by softmax along dimension 1 and with a
  dimension of size 1 inserted; this holds for all tensors, also when the score function
  fails. For a state of shape \<open>1 \<times> B \<times> H\<close> and encoder outputs of shape \<open>T \<times> B \<times> H\<close> the
  score functions succeed, the \<^verbatim>\<open>dot\<close> energy at (time, batch) is the sum over the features
  of the products of the state and the encoder output, and the \<^verbatim>\<open>general\<close> energy is the
  same sum with the encoder output passed through the learned linear map first.
\<close>

theorem attn_forward_scores:
  assumes "Attn_init lv vv m H = Inr a"
  shows "(m = ''dot'' \<longrightarrow>
            Attn_forward a h e =
              ebind (dot_score a h e) (\<lambda>E. Inr (unsqueeze1 (softmax_dim1 (tensor_t E))))) \<and>
         (m = ''general'' \<longrightarrow>
            Attn_forward a h e =
              ebind (general_score a h e) (\<lambda>E. Inr (unsqueeze1 (softmax_dim1 (tensor_t E))))) \<and>
         (m = ''dot'' \<and> d0 h = 1 \<and> d1 h = d1 e \<and> d2 h = d2 e \<longrightarrow>
            (\<exists>E. dot_score a h e = Inr E \<and> rows E = d0 e \<and> cols E = d1 e \<and>
                 (\<forall>t<d0 e. \<forall>b<d1 e. at2 E t b = spec_dot_energy h e t b))) \<and>
         (m = ''general'' \<and> d0 h = 1 \<and> d1 h = d1 e \<and> d2 h = d2 e \<and> d2 e = H \<longrightarrow>
            (\<exists>E. general_score a h e = Inr E \<and> rows E = d0 e \<and> cols E = d1 e \<and>
                 (\<forall>t<d0 e. \<forall>b<d1 e. at2 E t b = spec_general_energy lv h e t b))) \<and>
         ((m = ''dot'' \<or> m = ''general'' \<and> d2 e = H) \<and> d0 h = 1 \<and> d1 h = d1 e \<and> d2 h = d2 e \<longrightarrow>
            (\<exists>w. Attn_forward a h e = Inr w \<and> d0 w = d1 e \<and> d1 w = 1 \<and> d2 w = d0 e \<and>
                 (\<forall>b<d1 e. \<forall>t<d0 e.
                    at3 w b 0 t =
                      spec_softmax
                        (\<lambda>t'. if m = ''dot'' then spec_dot_energy h e t' b
                              else spec_general_energy lv h e t' b) (d0 e) t)))"
proof -
  note a = Attn_init_Inr [OF assms]
  have 1: "m = ''dot'' \<longrightarrow>
            Attn_forward a h e =
              ebind (dot_score a h e) (\<lambda>E. Inr (unsqueeze1 (softmax_dim1 (tensor_t E))))"
    using a(1) Attn_forward_dispatch(1) by simp
  have 2: "m = ''general'' \<longrightarrow>
            Attn_forward a h e =
              ebind (general_score a h e) (\<lambda>E. Inr (unsqueeze1 (softmax_dim1 (tensor_t E))))"
    using a(1) Attn_forward_dispatch(2) by simp
  have 3: "m = ''dot'' \<and> d0 h = 1 \<and> d1 h = d1 e \<and> d2 h = d2 e \<longrightarrow>
            (\<exists>E. dot_score a h e = Inr E \<and> rows E = d0 e \<and> cols E = d1 e \<and>
                 (\<forall>t<d0 e. \<forall>b<d1 e. at2 E t b = spec_dot_energy h e t b))"
    using dot_score_canonical [of h e a] by blast
  have 4: "m = ''general'' \<and> d0 h = 1 \<and> d1 h = d1 e \<and> d2 h = d2 e \<and> d2 e = H \<longrightarrow>
            (\<exists>E. general_score a h e = Inr E \<and> rows E = d0 e \<and> cols E = d1 e \<and>
                 (\<forall>t<d0 e. \<forall>b<d1 e. at2 E t b = spec_general_energy lv h e t b))"
    using general_score_canonical [of a lv H h e] a(3) by auto
  have 5: "(m = ''dot'' \<or> m = ''general'' \<and> d2 e = H) \<and> d0 h = 1 \<and> d1 h = d1 e \<and> d2 h = d2 e \<longrightarrow>
            (\<exists>w. Attn_forward a h e = Inr w \<and> d0 w = d1 e \<and> d1 w = 1 \<and> d2 w = d0 e \<and>
                 (\<forall>b<d1 e. \<forall>t<d0 e.
                    at3 w b 0 t =
                      spec_softmax
                        (\<lambda>t'. if m = ''dot'' then spec_dot_energy h e t' b
                              else spec_general_energy lv h e t' b) (d0 e) t))"
  proof
    assume h: "(m = ''dot'' \<or> m = ''general'' \<and> d2 e = H) \<and> d0 h = 1 \<and> d1 h = d1 e \<and> d2 h = d2 e"
    then have "m \<noteq> ''dot'' \<longrightarrow> d2 e = H" by auto
    from Attn_forward_canonical [OF assms _ _ _ this, of h] h obtain w where
      w: "Attn_forward a h e = Inr w" "d0 w = d1 e" "d1 w = 1" "d2 w = d0 e"
         "\<forall>b<d1 e. \<forall>t<d0 e.
            at3 w b 0 t = spec_softmax (\<lambda>t'. spec_attn_energy m lv vv h e t' b) (d0 e) t"
      by blast
    have "spec_attn_energy m lv vv h e =
          (\<lambda>t' b. if m = ''dot'' then spec_dot_energy h e t' b else spec_general_energy lv h e t' b)"
      using h by (auto simp: spec_attn_energy_def)
    with w show "\<exists>w. Attn_forward a h e = Inr w \<and> d0 w = d1 e \<and> d1 w = 1 \<and> d2 w = d0 e \<and>
                 (\<forall>b<d1 e. \<forall>t<d0 e.
                    at3 w b 0 t =
                      spec_softmax
                        (\<lambda>t'. if m = ''dot'' then spec_dot_energy h e t' b
                              else spec_general_energy lv h e t' b) (d0 e) t)"
      by simp
  qed
  from 1 2 3 4 5 show ?thesis by blast
qed

theorem attn_forward_scores_witness:
  "Attn_init ex_lin ex_v ''dot'' 2 = Inr (ex_attn ''dot'') \<and>
   d0 ex_hidden = 1 \<and> d1 ex_hidden = d1 ex_enc \<and> d2 ex_hidden = d2 ex_enc \<and>
   (\<exists>E. dot_score (ex_attn ''dot'') ex_hidden ex_enc = Inr E \<and> at2 E 0 0 = 0 \<and> at2 E 1 0 = 2) \<and>
   (\<exists>w. Attn_forward (ex_attn ''dot'') ex_hidden ex_enc = Inr w \<and>
        at3 w 0 0 0 = 1 / (1 + exp 2) \<and> at3 w 0 0 1 = exp 2 / (1 + exp 2))"
proof -
  have i: "Attn_init ex_lin ex_v ''dot'' 2 = Inr (ex_attn ''dot'')"
    by (simp add: Attn_init_def ex_attn_def)
  have s: "d0 ex_hidden = 1" "d1 ex_hidden = d1 ex_enc" "d2 ex_hidden = d2 ex_enc"
    by (simp_all add: ex_hidden_def ex_enc_def)
  have en: "spec_dot_energy ex_hidden ex_enc 0 0 = 0" "spec_dot_energy ex_hidden ex_enc 1 0 = 2"
    by (simp_all add: spec_dot_energy_def ex_hidden_def ex_enc_def numeral_2_eq_2)
  have d: "d0 ex_enc = Suc (Suc 0)" "d1 ex_enc = Suc 0"
    by (simp_all add: ex_enc_def)
  from attn_forward_scores [OF i, of ex_hidden ex_enc] s
  have "(\<exists>E. dot_score (ex_attn ''dot'') ex_hidden ex_enc = Inr E \<and>
             (\<forall>t<d0 ex_enc. \<forall>b<d1 ex_enc. at2 E t b = spec_dot_energy ex_hidden ex_enc t b))"
    and "(\<exists>w. Attn_forward (ex_attn ''dot'') ex_hidden ex_enc = Inr w \<and>
             (\<forall>b<d1 ex_enc. \<forall>t<d0 ex_enc.
                at3 w b 0 t =
                  spec_softmax (\<lambda>t'. spec_dot_energy ex_hidden ex_enc t' b) (d0 ex_enc) t))"
    by auto
  then show ?thesis
    using i s en by (auto simp: d spec_softmax_def)
qed

text \<open>
  Claim C7. For the method \<^verbatim>\<open>concat\<close>, a state of shape \<open>1 \<times> B \<times> H\<close> and encoder outputs
  of shape \<open>T \<times> B \<times> H\<close>, the energy is the hyperbolic tangent of the learned linear map
  applied to the state (repeated for every time step) concatenated with the encoder output
  along the features, the score at (time, batch) is the sum over the features of \<open>v\<close> times
  that energy, and \<^verbatim>\<open>Attn.forward\<close> returns these scores transposed and normalised.
\<close>

theorem concat_score_alignment:
  assumes "Attn_init lv vv ''concat'' H = Inr a"
      and "d0 h = 1" "d1 h = d1 e" "d2 h = H" "d2 e = H"
  shows "\<exists>E. concat_score a h e = Inr E \<and> rows E = d0 e \<and> cols E = d1 e \<and>
           (\<forall>t<d0 e. \<forall>b<d1 e.
              at2 E t b = (\<Sum>q<H. vv q * spec_concat_energy lv h e t b q)) \<and>
           Attn_forward a h e = Inr (unsqueeze1 (softmax_dim1 (tensor_t E)))"
proof -
  note a = Attn_init_Inr [OF assms(1)]
  from concat_score_canonical [of a lv H vv h e] a(4,5) assms(2-5) obtain E where
    E: "concat_score a h e = Inr E" "rows E = d0 e" "cols E = d1 e"
       "\<forall>t<d0 e. \<forall>b<d1 e. at2 E t b = spec_concat_score lv vv h e t b"
    by auto
  have "Attn_forward a h e = Inr (unsqueeze1 (softmax_dim1 (tensor_t E)))"
    using a(1) E(1) by (simp add: Attn_forward_dispatch(3))
  then show ?thesis
    using E assms(5) by (auto simp: spec_concat_score_def)
qed

theorem concat_score_alignment_witness:
  "Attn_init ex_lin ex_v ''concat'' 2 = Inr (ex_attn ''concat'') \<and>
   d0 ex_hidden = 1 \<and> d1 ex_hidden = d1 ex_enc \<and> d2 ex_hidden = 2 \<and> d2 ex_enc = 2 \<and>
   (\<exists>E. concat_score (ex_attn ''concat'') ex_hidden ex_enc = Inr E \<and>
        at2 E 0 0 = 2 * tanh 2 \<and> at2 E 1 0 = 2 * tanh 4)"
proof -
  have i: "Attn_init ex_lin ex_v ''concat'' 2 = Inr (ex_attn ''concat'')"
    by (simp add: Attn_init_def ex_attn_def)
  have s: "d0 ex_hidden = 1" "d1 ex_hidden = d1 ex_enc" "d2 ex_hidden = 2" "d2 ex_enc = 2"
    by (simp_all add: ex_hidden_def ex_enc_def)
  have en: "spec_concat_energy ex_lin ex_hidden ex_enc 0 0 q = tanh 2"
           "spec_concat_energy ex_lin ex_hidden ex_enc (Suc 0) 0 q = tanh 4" for q
    by (simp_all add: spec_concat_energy_def spec_linear_def ex_lin_def ex_hidden_def ex_enc_def
          lessThan_Suc eval_nat_numeral)
  have d: "d0 ex_enc = Suc (Suc 0)" "d1 ex_enc = Suc 0"
    by (simp_all add: ex_enc_def)
  from concat_score_alignment [OF i s] obtain E where
    "concat_score (ex_attn ''concat'') ex_hidden ex_enc = Inr E"
    "\<forall>t<d0 ex_enc. \<forall>b<d1 ex_enc.
       at2 E t b = (\<Sum>q<2. ex_v q * spec_concat_energy ex_lin ex_hidden ex_enc t b q)"
    by blast
  then show ?thesis
    using i s by (auto simp: d en ex_v_def lessThan_Suc numeral_2_eq_2)
qed

section \<open>Packing and the encoder\<close>

lemma pack_padded_sequence_Inr_iff:
  "(\<exists>p. pack_padded_sequence x ls = Inr p) \<longleftrightarrow>
     0 < d0 x * d1 x * d2 x \<and> length ls = d1 x \<and> 0 < last ls \<and> sorted_wrt (\<lambda>a b. b \<le> a) ls"
  by (auto simp: pack_padded_sequence_def Let_def)

lemma pack_padded_sequence_Inr:
  assumes "pack_padded_sequence x ls = Inr p"
  shows "0 < d0 x * d1 x * d2 x" "length ls = d1 x" "0 < last ls" "sorted_wrt (\<lambda>a b. b \<le> a) ls"
        "batch_sizes p = step_sizes ls" "rows (pdata p) = sum_list (take (d0 x) (step_sizes ls))"
        "cols (pdata p) = d2 x"
  using assms by (auto simp: pack_padded_sequence_def Let_def split: if_splits)

lemma pack_unsorted:
  "\<not> sorted_wrt (\<lambda>a b. b \<le> a) ls \<Longrightarrow> pack_padded_sequence x ls = Inl RuntimeError"
  by (simp add: pack_padded_sequence_def)

lemma sorted_desc_bounds:
  assumes "sorted_wrt (\<lambda>a b. b \<le> a) (ls :: int list)" "l \<in> set ls"
  shows "last ls \<le> l" "l \<le> hd ls"
proof -
  from assms(2) obtain i where i: "i < length ls" "ls ! i = l"
    by (auto simp: in_set_conv_nth)
  then have ne: "ls \<noteq> []" by auto
  show "last ls \<le> l"
  proof (cases "i = length ls - 1")
    case True
    then show ?thesis using i ne by (simp add: last_conv_nth)
  next
    case False
    then have "i < length ls - 1" using i by simp
    moreover have "length ls - 1 < length ls" using ne by simp
    ultimately have "ls ! (length ls - 1) \<le> ls ! i"
      using assms(1) unfolding sorted_wrt_iff_nth_less by blast
    then show ?thesis using i ne by (simp add: last_conv_nth)
  qed
  show "l \<le> hd ls"
  proof (cases "i = 0")
    case True
    then show ?thesis using i ne by (simp add: hd_conv_nth)
  next
    case False
    then have "0 < i" by simp
    then have "ls ! i \<le> ls ! 0"
      using assms(1) i(1) unfolding sorted_wrt_iff_nth_less by blast
    then show ?thesis using i ne by (simp add: hd_conv_nth)
  qed
qed

lemma step_sizes_length: "ls \<noteq> [] \<Longrightarrow> length (step_sizes ls) = nat (hd ls)"
  by (cases ls) (simp_all add: step_sizes_def)

lemma step_sizes_nth:
  "ls \<noteq> [] \<Longrightarrow> t < nat (hd ls) \<Longrightarrow>
     step_sizes ls ! t = length (filter (\<lambda>m. int t < m) ls)"
  by (cases ls) (simp_all add: step_sizes_def)

lemma step_sizes_pos:
  assumes "ls \<noteq> []" "k \<in> set (step_sizes ls)"
  shows "0 < k"
proof -
  from assms obtain l rest where ls: "ls = l # rest" by (cases ls) auto
  from assms(2) ls obtain t where t: "t < nat l" "k = length (filter (\<lambda>m. int t < m) ls)"
    by (auto simp: step_sizes_def)
  then have "int t < l" by simp
  then have "filter (\<lambda>m. int t < m) ls \<noteq> []" using ls by simp
  then show ?thesis using t by simp
qed

lemma sum_list_take_less:
  assumes "\<forall>k \<in> set bs. 0 < (k::nat)" "n < length bs"
  shows "sum_list (take n bs) < sum_list bs"
proof -
  have "drop n bs \<noteq> []" using assms(2) by simp
  then obtain k ks where d: "drop n bs = k # ks" by (cases "drop n bs") auto
  then have "k \<in> set bs" by (metis in_set_dropD list.set_intros(1))
  then have "0 < k" using assms(1) by blast
  then have "0 < sum_list (drop n bs)" using d by simp
  moreover have "sum_list bs = sum_list (take n bs) + sum_list (drop n bs)"
    by (metis append_take_drop_id sum_list_append)
  ultimately show ?thesis by linarith
qed

lemma sum_list_take_all: "length bs \<le> n \<Longrightarrow> sum_list (take n bs) = sum_list bs"
  by simp

text \<open>A packed sequence holds the rows it announces exactly when no length exceeds the input.\<close>

lemma packed_rows_complete:
  assumes "pack_padded_sequence x ls = Inr p"
  shows "sum_list (batch_sizes p) \<le> rows (pdata p) \<longleftrightarrow> hd ls \<le> int (d0 x)"
proof -
  note p = pack_padded_sequence_Inr [OF assms]
  have ne: "ls \<noteq> []" using p(1,2) by auto
  have len: "length (step_sizes ls) = nat (hd ls)" by (rule step_sizes_length [OF ne])
  show ?thesis
  proof (cases "hd ls \<le> int (d0 x)")
    case True
    then have "length (step_sizes ls) \<le> d0 x" using len by simp
    then show ?thesis using True p(5,6) by simp
  next
    case False
    then have "d0 x < length (step_sizes ls)" using len by simp
    then have "sum_list (take (d0 x) (step_sizes ls)) < sum_list (step_sizes ls)"
      using step_sizes_pos [OF ne] by (intro sum_list_take_less) auto
    then show ?thesis using False p(5,6) by simp
  qed
qed


lemma embedding_forward_Inr_iff:
  "(\<exists>x. embedding_forward emb idx = Inr x) \<longleftrightarrow> valid_indices emb idx"
  by (simp add: embedding_forward_def valid_indices_def)

lemma embedding_forward_Inr:
  assumes "embedding_forward emb idx = Inr x"
  shows "d0 x = irows idx" "d1 x = icols idx" "d2 x = embedding_dim emb"
  using assms by (auto simp: embedding_forward_def split: if_splits)

lemma rnn_forward_packed_Inr:
  assumes "rnn_forward_packed l p hx = Inr (q, hid)"
  shows "cols (pdata p) = input_size l" "sum_list (batch_sizes p) \<le> rows (pdata p)"
        "batch_sizes q = batch_sizes p" "rows (pdata q) = sum_list (batch_sizes p)"
        "cols (pdata q) = num_directions l * rnn_hidden_size l"
  using assms by (auto simp: rnn_forward_packed_def split: if_splits prod.splits)

lemma pad_packed_sequence_Inr:
  assumes "pad_packed_sequence q = Inr U"
  shows "d0 U = length (batch_sizes q)" "d2 U = cols (pdata q)" "batch_sizes q \<noteq> []"
        "d1 U = hd (batch_sizes q)"
  using assms by (auto simp: pad_packed_sequence_def Let_def split: list.splits if_splits)

lemma EncoderRNN_forward_unpacked:
  "EncoderRNN_forward rt self inp ls hx =
     ebind (encoder_unpacked rt self inp ls hx) (\<lambda>r.
       ebind (torch_add (slice_dim2_to (fst r) (enc_hidden_size self))
                        (slice_dim2_from (fst r) (enc_hidden_size self)))
         (\<lambda>outputs. Inr (outputs, snd r)))"
  by (simp add: EncoderRNN_forward_def encoder_unpacked_def ebind_def
        split: sum.splits option.splits prod.splits)

lemma encoder_rnn_step_Some:
  assumes "encoder_rnn_step rt self p hx = Inr (Some (q, hid))"
  shows "\<exists>l. (rt = ''LSTM'' \<and> enc_lstm self = Some l \<and> rnn_forward_packed l p None = Inr (q, hid)) \<or>
             (rt = ''GRU'' \<and> enc_gru self = Some l \<and> rnn_forward_packed l p hx = Inr (q, hid))"
  using assms
  by (auto simp: encoder_rnn_step_def ebind_Inr_iff split: if_splits option.splits)

lemma encoder_unpacked_Inr:
  assumes "encoder_unpacked rt self inp ls hx = Inr (U, hid)"
  shows "\<exists>x p q. embedding_forward (enc_embedding self) inp = Inr x \<and>
                 pack_padded_sequence x ls = Inr p \<and>
                 encoder_rnn_step rt self p hx = Inr (Some (q, hid)) \<and>
                 pad_packed_sequence q = Inr U"
  using assms
  by (auto simp: encoder_unpacked_def ebind_Inr_iff split: option.splits)

lemma merge_directions:
  assumes "d2 U = 2 * H"
  shows "\<exists>out. torch_add (slice_dim2_to U H) (slice_dim2_from U H) = Inr out \<and>
           d0 out = d0 U \<and> d1 out = d1 U \<and> d2 out = H \<and>
           (\<forall>t<d0 U. \<forall>b<d1 U. \<forall>h<H. at3 out t b h = at3 U t b h + at3 U t b (H + h))"
  using assms
  by (simp add: torch_add_def broadcast3_def slice_dim2_to_def slice_dim2_from_def
        broadcast_size_def bidx_def)

lemma RNNBase_init_Inr:
  assumes "RNNBase_init mode vals i h n dr bi = Inr l"
  shows "kind l = mode" "input_size l = i" "rnn_hidden_size l = h" "num_layers l = n"
        "bidirectional l = bi" "num_directions l = (if bi then 2 else 1)"
        "run_packed l = fst vals" "run_seq l = snd vals"
        "0 \<le> dr" "dr \<le> 1" "0 < h" "0 < n"
  using assms by (auto simp: RNNBase_init_def num_directions_def split: if_splits)

lemma RNNBase_init_Inr_iff:
  "(\<exists>l. RNNBase_init mode vals i h n dr bi = Inr l) \<longleftrightarrow> 0 \<le> dr \<and> dr \<le> 1 \<and> 0 < h \<and> 0 < n"
  by (auto simp: RNNBase_init_def)

lemma EncoderRNN_init_layers:
  assumes "EncoderRNN_init rt vals H emb n dr = Inr self"
  shows "enc_hidden_size self = H"
        "enc_embedding self = emb"
        "enc_lstm self = Some l \<Longrightarrow>
           rt = ''LSTM'' \<and> RNNBase_init LSTM vals H H n (if n = 1 then 0 else dr) True = Inr l"
        "enc_gru self = Some l \<Longrightarrow>
           rt = ''GRU'' \<and> RNNBase_init GRU vals H H n (if n = 1 then 0 else dr) True = Inr l"
        "rt = ''LSTM'' \<Longrightarrow> \<exists>l'. enc_lstm self = Some l'"
        "rt = ''GRU'' \<Longrightarrow> \<exists>l'. enc_gru self = Some l'"
  using assms
  by (auto simp: EncoderRNN_init_def nn_LSTM_def nn_GRU_def ebind_Inr_iff split: if_splits)

text \<open>What a returned unpacked output tells: every step before it succeeded.\<close>

lemma encoder_unpacked_shape:
  assumes init: "EncoderRNN_init rt vals H emb n dr = Inr self"
      and "encoder_unpacked rt self inp ls hx = Inr (U, hid)"
  shows "d2 U = 2 * H" "d0 U = nat (hd ls)" "valid_indices emb inp"
        "length ls = icols inp" "0 < last ls" "sorted_wrt (\<lambda>a b. b \<le> a) ls"
        "hd ls \<le> int (irows inp)" "ls \<noteq> []"
proof -
  note il = EncoderRNN_init_layers [OF init]
  from encoder_unpacked_Inr [OF assms(2)] obtain x p q where
    x: "embedding_forward (enc_embedding self) inp = Inr x" and
    p: "pack_padded_sequence x ls = Inr p" and
    r: "encoder_rnn_step rt self p hx = Inr (Some (q, hid))" and
    U: "pad_packed_sequence q = Inr U"
    by blast
  from encoder_rnn_step_Some [OF r] obtain l hx' where
    l: "enc_lstm self = Some l \<or> enc_gru self = Some l" and
    f: "rnn_forward_packed l p hx' = Inr (q, hid)"
    by blast
  from l obtain mode where
    "RNNBase_init mode vals H H n (if n = 1 then 0 else dr) True = Inr l"
    using il(3,4) [of l] by blast
  from RNNBase_init_Inr(3,6) [OF this] have lf: "num_directions l = 2" "rnn_hidden_size l = H"
    by simp_all
  note pk = pack_padded_sequence_Inr [OF p]
  note rf = rnn_forward_packed_Inr [OF f]
  note pd = pad_packed_sequence_Inr [OF U]
  note em = embedding_forward_Inr [OF x]
  show "d2 U = 2 * H" using pd(2) rf(5) lf by simp
  show ne: "ls \<noteq> []" using pk(1,2) by auto
  show "d0 U = nat (hd ls)" using pd(1) rf(3) pk(5) step_sizes_length [OF ne] by simp
  show "valid_indices emb inp"
    using x embedding_forward_Inr_iff [of emb inp] by (auto simp: il(2))
  show "length ls = icols inp" using pk(2) em(2) by simp
  show "0 < last ls" by (rule pk(3))
  show "sorted_wrt (\<lambda>a b. b \<le> a) ls" by (rule pk(4))
  show "hd ls \<le> int (irows inp)"
    using packed_rows_complete [OF p] rf(2) em(1) by simp
qed


lemma step_sizes_first:
  assumes "ls \<noteq> []" "\<forall>l\<in>set ls. 0 < l"
  shows "\<exists>bs. step_sizes ls = length ls # bs"
proof -
  from assms obtain l rest where ls: "ls = l # rest" by (cases ls) auto
  define g where "g = (\<lambda>t. length (filter (\<lambda>m. int t < m) ls))"
  have "0 < l" using assms(2) ls by simp
  then have "[0..<nat l] = 0 # [1..<nat l]"
    by (simp add: upt_conv_Cons)
  moreover have "step_sizes ls = map g [0..<nat l]"
    by (simp add: ls step_sizes_def g_def)
  ultimately have "step_sizes ls = g 0 # map g [1..<nat l]"
    by (simp only: list.map)
  moreover have "g 0 = length ls"
    using assms(2) by (simp add: g_def filter_id_conv)
  ultimately show ?thesis by simp
qed

lemma pad_packed_sequence_succeeds:
  assumes "batch_sizes q = b0 # bs" "sum_list (batch_sizes q) \<le> rows (pdata q)"
  shows "\<exists>U. pad_packed_sequence q = Inr U \<and> d0 U = length (batch_sizes q) \<and> d1 U = b0 \<and>
             d2 U = cols (pdata q)"
  using assms by (simp add: pad_packed_sequence_def Let_def)

lemma encoder_unpacked_succeeds:
  assumes init: "EncoderRNN_init rt vals H emb n dr = Inr self"
      and rt: "rt = ''LSTM'' \<or> rt = ''GRU''"
      and emb: "embedding_dim emb = H" "valid_indices emb inp"
      and pos: "0 < H" "0 < irows inp" "0 < icols inp"
      and ls: "valid_lengths (irows inp) (icols inp) ls"
      and hx: "\<forall>l. enc_gru self = Some l \<longrightarrow> hidden_ok l (icols inp) hx"
  shows "\<exists>U hid. encoder_unpacked rt self inp ls hx = Inr (U, hid) \<and>
           d0 U = nat (hd ls) \<and> d1 U = icols inp \<and> d2 U = 2 * H"
proof -
  note il = EncoderRNN_init_layers [OF init]
  from emb(2) obtain x where x: "embedding_forward emb inp = Inr x"
    using embedding_forward_Inr_iff by blast
  note em = embedding_forward_Inr [OF x]
  have ne: "ls \<noteq> []" using ls pos(3) by (auto simp: valid_lengths_def)
  have allpos: "\<forall>l\<in>set ls. 0 < l" using ls by (simp add: valid_lengths_def)
  have "0 < last ls" using ne allpos by simp
  then obtain p where p: "pack_padded_sequence x ls = Inr p"
    using pack_padded_sequence_Inr_iff [of x ls] em emb(1) pos ls
    by (auto simp: valid_lengths_def)
  note pk = pack_padded_sequence_Inr [OF p]
  from step_sizes_first [OF ne allpos] obtain bs where bs: "step_sizes ls = length ls # bs"
    by blast
  have "hd ls \<le> int (irows inp)" using ls ne by (simp add: valid_lengths_def)
  then have full: "sum_list (batch_sizes p) \<le> rows (pdata p)"
    using packed_rows_complete [OF p] em(1) by simp
  have B: "(case batch_sizes p of [] \<Rightarrow> 0 | b # _ \<Rightarrow> b) = icols inp"
    using pk(5) bs ls by (simp add: valid_lengths_def)
  define hx' where "hx' = (if rt = ''LSTM'' then None else hx)"
  obtain l where
    l: "if rt = ''LSTM'' then enc_lstm self = Some l else enc_gru self = Some l"
    using il(5,6) rt by (cases "rt = ''LSTM''") auto
  have hok: "hidden_ok l (icols inp) hx'"
  proof (cases "rt = ''LSTM''")
    case True
    then show ?thesis by (simp add: hx'_def hidden_ok_def)
  next
    case False
    then have "enc_gru self = Some l" using l by simp
    then show ?thesis using hx False by (simp add: hx'_def)
  qed
  obtain mode where
    "RNNBase_init mode vals H H n (if n = 1 then 0 else dr) True = Inr l"
    using il(3,4) [of l] l by (cases "rt = ''LSTM''") auto
  from RNNBase_init_Inr(2,3,6) [OF this]
  have lf: "input_size l = H" "num_directions l = 2" "rnn_hidden_size l = H"
    by simp_all
  obtain out hid where oh: "run_packed l p hx' = (out, hid)"
    by (cases "run_packed l p hx'") auto
  define q where "q = \<lparr>pdata = \<lparr>rows = sum_list (batch_sizes p), cols = 2 * H, at2 = out\<rparr>,
                        batch_sizes = batch_sizes p\<rparr>"
  have f: "rnn_forward_packed l p hx' = Inr (q, hid)"
    using pk(7) em(3) emb(1) lf hok B full oh
    by (simp add: rnn_forward_packed_def q_def)
  have step: "encoder_rnn_step rt self p hx = Inr (Some (q, hid))"
    using rt f l by (auto simp: encoder_rnn_step_def hx'_def)
  have "batch_sizes q = length ls # bs" "sum_list (batch_sizes q) \<le> rows (pdata q)"
    using pk(5) bs by (simp_all add: q_def)
  from pad_packed_sequence_succeeds [OF this] obtain U where
    pad: "pad_packed_sequence q = Inr U" and
    Ud: "d0 U = length (batch_sizes q)" "d1 U = length ls" "d2 U = cols (pdata q)"
    by blast
  have "encoder_unpacked rt self inp ls hx = Inr (U, hid)"
    using x p step pad by (simp add: encoder_unpacked_def il(2))
  moreover have "d0 U = nat (hd ls)"
    using Ud(1) pk(5) step_sizes_length [OF ne] by (simp add: q_def)
  moreover have "d1 U = icols inp" using Ud(2) ls by (simp add: valid_lengths_def)
  moreover have "d2 U = 2 * H" using Ud(3) by (simp add: q_def)
  ultimately show ?thesis by blast
qed

text \<open>
  Claim C2. Whenever \<^verbatim>\<open>EncoderRNN.forward\<close> of an encoder built by its constructor returns,
  the recurrent layer's unpacked output \<open>U\<close> has \<open>2 * hidden_size\<close> features and the returned
  outputs have \<open>hidden_size\<close> features, each the sum of the entry of the forward half of \<open>U\<close>
  and the entry of the backward half at the same time step and batch position. And it does
  return, with \<open>hidden_size\<close> features, for every padded batch of word indexes of the
  vocabulary with valid non-increasing lengths (and, for a GRU, an initial hidden state of the
  layer's shape, if one is given).
\<close>

theorem encoder_forward_bidirectional_merge:
  assumes "EncoderRNN_init rt vals H emb n dr = Inr self"
  shows
  "(\<forall>outputs hid.
      EncoderRNN_forward rt self inp ls hx = Inr (outputs, hid) \<longrightarrow>
      (\<exists>U. encoder_unpacked rt self inp ls hx = Inr (U, hid) \<and>
           d2 U = 2 * H \<and> d0 outputs = d0 U \<and> d1 outputs = d1 U \<and> d2 outputs = H \<and>
           (\<forall>t<d0 U. \<forall>b<d1 U. \<forall>h<H. at3 outputs t b h = at3 U t b h + at3 U t b (H + h)))) \<and>
   ((rt = ''LSTM'' \<or> rt = ''GRU'') \<and> embedding_dim emb = H \<and> valid_indices emb inp \<and>
    0 < H \<and> 0 < irows inp \<and> 0 < icols inp \<and> valid_lengths (irows inp) (icols inp) ls \<and>
    (\<forall>l. enc_gru self = Some l \<longrightarrow> hidden_ok l (icols inp) hx) \<longrightarrow>
    (\<exists>outputs hid.
       EncoderRNN_forward rt self inp ls hx = Inr (outputs, hid) \<and>
       d0 outputs = nat (hd ls) \<and> d1 outputs = icols inp \<and> d2 outputs = H))"
proof (intro conjI allI impI)
  fix outputs hid
  note il = EncoderRNN_init_layers [OF assms]
  assume fw: "EncoderRNN_forward rt self inp ls hx = Inr (outputs, hid)"
  then obtain U where
    U: "encoder_unpacked rt self inp ls hx = Inr (U, hid)" and
    add: "torch_add (slice_dim2_to U H) (slice_dim2_from U H) = Inr outputs"
    by (auto simp: EncoderRNN_forward_unpacked ebind_Inr_iff il(1))
  have "d2 U = 2 * H" by (rule encoder_unpacked_shape(1) [OF assms U])
  from merge_directions [OF this] add U \<open>d2 U = 2 * H\<close>
  show "\<exists>U. encoder_unpacked rt self inp ls hx = Inr (U, hid) \<and>
           d2 U = 2 * H \<and> d0 outputs = d0 U \<and> d1 outputs = d1 U \<and> d2 outputs = H \<and>
           (\<forall>t<d0 U. \<forall>b<d1 U. \<forall>h<H. at3 outputs t b h = at3 U t b h + at3 U t b (H + h))"
    by auto
next
  note il = EncoderRNN_init_layers [OF assms]
  assume v: "(rt = ''LSTM'' \<or> rt = ''GRU'') \<and> embedding_dim emb = H \<and> valid_indices emb inp \<and>
    0 < H \<and> 0 < irows inp \<and> 0 < icols inp \<and> valid_lengths (irows inp) (icols inp) ls \<and>
    (\<forall>l. enc_gru self = Some l \<longrightarrow> hidden_ok l (icols inp) hx)"
  then obtain U hid where
    U: "encoder_unpacked rt self inp ls hx = Inr (U, hid)"
       "d0 U = nat (hd ls)" "d1 U = icols inp" "d2 U = 2 * H"
    using encoder_unpacked_succeeds [OF assms, where inp = inp and ls = ls and hx = hx] by auto
  from merge_directions [OF U(4)] obtain out where
    "torch_add (slice_dim2_to U H) (slice_dim2_from U H) = Inr out"
    "d0 out = d0 U" "d1 out = d1 U" "d2 out = H"
    by blast
  then show "\<exists>outputs hid. EncoderRNN_forward rt self inp ls hx = Inr (outputs, hid) \<and>
       d0 outputs = nat (hd ls) \<and> d1 outputs = icols inp \<and> d2 outputs = H"
    using U by (simp add: EncoderRNN_forward_unpacked il(1))
qed

lemma ex_encoder_init: "EncoderRNN_init ''GRU'' ex_rnn 1 ex_embedding 1 0 = Inr ex_encoder"
  by (simp add: EncoderRNN_init_def nn_GRU_def RNNBase_init_def ex_encoder_def ex_gru_def)

lemma ex_unpacked_values:
  assumes "encoder_unpacked ''GRU'' ex_encoder ex_input [2] None = Inr (U, hid)"
  shows "at3 U 0 0 0 = 1 \<and> at3 U 0 0 1 = 2 \<and> at3 U 1 0 0 = 1 \<and> at3 U 1 0 1 = 2"
  using assms
  by (auto simp: encoder_unpacked_def ex_encoder_def ex_gru_def ex_embedding_def nn_Embedding_def
        ex_input_def embedding_forward_def pack_padded_sequence_def step_sizes_def Let_def
        encoder_rnn_step_def rnn_forward_packed_def hidden_ok_def ex_rnn_def
        num_directions_def pad_packed_sequence_def numeral_2_eq_2
        split: if_splits)

theorem encoder_forward_bidirectional_merge_witness:
  "EncoderRNN_init ''GRU'' ex_rnn 1 ex_embedding 1 0 = Inr ex_encoder \<and>
   valid_indices ex_embedding ex_input \<and> valid_lengths 2 1 [2] \<and>
   (\<exists>outputs hid.
      EncoderRNN_forward ''GRU'' ex_encoder ex_input [2] None = Inr (outputs, hid) \<and>
      d0 outputs = 2 \<and> d1 outputs = 1 \<and> d2 outputs = 1 \<and>
      at3 outputs 0 0 0 = 3 \<and> at3 outputs 1 0 0 = 3)"
proof -
  note inst = encoder_forward_bidirectional_merge
    [OF ex_encoder_init, where inp = ex_input and ls = "[2]" and hx = None]
  have vi: "valid_indices ex_embedding ex_input"
    by (simp add: valid_indices_def ex_embedding_def nn_Embedding_def ex_input_def)
  have vl: "valid_lengths 2 1 [2]"
    by (simp add: valid_lengths_def)
  have dims: "embedding_dim ex_embedding = 1" "irows ex_input = 2" "icols ex_input = 1"
    by (simp_all add: ex_embedding_def nn_Embedding_def ex_input_def)
  have hok: "\<forall>l. enc_gru ex_encoder = Some l \<longrightarrow> hidden_ok l (icols ex_input) None"
    by (simp add: hidden_ok_def)
  from inst vi vl dims hok obtain outputs hid where
    fw: "EncoderRNN_forward ''GRU'' ex_encoder ex_input [2] None = Inr (outputs, hid)" and
    d: "d0 outputs = 2" "d1 outputs = 1" "d2 outputs = 1"
    by auto
  from inst fw obtain U where
    U: "encoder_unpacked ''GRU'' ex_encoder ex_input [2] None = Inr (U, hid)" and
    Ud: "d0 outputs = d0 U" "d1 outputs = d1 U" and
    m: "\<forall>t<d0 U. \<forall>b<d1 U. \<forall>h<1. at3 outputs t b h = at3 U t b h + at3 U t b (1 + h)"
    by blast
  from m Ud d have "at3 outputs 0 0 0 = at3 U 0 0 0 + at3 U 0 0 1"
    "at3 outputs 1 0 0 = at3 U 1 0 0 + at3 U 1 0 1"
    by auto
  with ex_unpacked_values [OF U] have "at3 outputs 0 0 0 = 3" "at3 outputs 1 0 0 = 3"
    by auto
  with fw d vi vl ex_encoder_init show ?thesis by blast
qed

subsection \<open>The lengths accepted by the encoder\<close>

lemma EncoderRNN_forward_lengths:
  assumes "EncoderRNN_forward rt self inp ls hx = Inr r"
  shows "valid_lengths (irows inp) (icols inp) ls"
proof -
  from assms obtain U hid where "encoder_unpacked rt self inp ls hx = Inr (U, hid)"
    by (auto simp: EncoderRNN_forward_unpacked ebind_Inr_iff)
  from encoder_unpacked_Inr [OF this] obtain x p q where
    x: "embedding_forward (enc_embedding self) inp = Inr x" and
    p: "pack_padded_sequence x ls = Inr p" and
    r: "encoder_rnn_step rt self p hx = Inr (Some (q, hid))"
    by blast
  from encoder_rnn_step_Some [OF r] obtain l hx' where
    f: "rnn_forward_packed l p hx' = Inr (q, hid)"
    by blast
  note pk = pack_padded_sequence_Inr [OF p]
  note em = embedding_forward_Inr [OF x]
  have top: "hd ls \<le> int (irows inp)"
    using packed_rows_complete [OF p] rnn_forward_packed_Inr(2) [OF f] em(1) by simp
  have "0 < l \<and> l \<le> int (irows inp)" if "l \<in> set ls" for l
    using sorted_desc_bounds [OF pk(4) that] pk(3) top by linarith
  then show ?thesis
    using pk(2,4) em(2) by (simp add: valid_lengths_def)
qed

lemma EncoderRNN_forward_unsorted:
  assumes "\<not> sorted_wrt (\<lambda>a b. b \<le> a) ls"
  shows "\<exists>e. EncoderRNN_forward rt self inp ls hx = Inl e"
    and "embedding_forward (enc_embedding self) inp = Inr x \<Longrightarrow>
           EncoderRNN_forward rt self inp ls hx = Inl RuntimeError"
proof -
  show "embedding_forward (enc_embedding self) inp = Inr x \<Longrightarrow>
           EncoderRNN_forward rt self inp ls hx = Inl RuntimeError"
    using pack_unsorted [OF assms] by (simp add: EncoderRNN_forward_def)
  show "\<exists>e. EncoderRNN_forward rt self inp ls hx = Inl e"
    using pack_unsorted [OF assms]
    by (cases "embedding_forward (enc_embedding self) inp") (simp_all add: EncoderRNN_forward_def)
qed

lemma pack_valid_lengths:
  assumes "valid_lengths (d0 x) (d1 x) ls" "0 < d0 x * d1 x * d2 x"
  shows "\<exists>p. pack_padded_sequence x ls = Inr p"
proof -
  have "ls \<noteq> []" using assms by (auto simp: valid_lengths_def)
  then have "last ls \<in> set ls" by simp
  then have "0 < last ls" using assms(1) by (simp add: valid_lengths_def)
  then show ?thesis
    using assms pack_padded_sequence_Inr_iff [of x ls] by (simp add: valid_lengths_def)
qed

text \<open>
  Claim C10. \<^verbatim>\<open>EncoderRNN.forward\<close> returns only for lengths that are positive, at most
  the padded sequence length, one per batch column and sorted in non-increasing order. For
  lengths that are not sorted so, the packing step raises \<^verbatim>\<open>RuntimeError\<close> and the method
  ends in an error (that very error whenever the embedding lookup succeeded). Under the
  precondition the packing step of a non-empty batch does not raise.
\<close>

theorem encoder_forward_lengths_precondition:
  "(\<forall>r. EncoderRNN_forward rt self inp ls hx = Inr r \<longrightarrow>
         valid_lengths (irows inp) (icols inp) ls) \<and>
   (\<not> sorted_wrt (\<lambda>a b. b \<le> a) ls \<longrightarrow>
      pack_padded_sequence x ls = Inl RuntimeError \<and>
      (\<exists>e. EncoderRNN_forward rt self inp ls hx = Inl e) \<and>
      (\<forall>y. embedding_forward (enc_embedding self) inp = Inr y \<longrightarrow>
           EncoderRNN_forward rt self inp ls hx = Inl RuntimeError)) \<and>
   (valid_lengths (d0 x) (d1 x) ls \<and> 0 < d0 x * d1 x * d2 x \<longrightarrow>
      (\<exists>p. pack_padded_sequence x ls = Inr p))"
  using EncoderRNN_forward_lengths [where rt = rt and self = self and inp = inp and ls = ls and hx = hx]
        EncoderRNN_forward_unsorted [where rt = rt and self = self and inp = inp and ls = ls and hx = hx]
        pack_unsorted [where ls = ls and x = x]
        pack_valid_lengths [where x = x and ls = ls]
  by blast

lemma ex_encoder_forward_returns:
  "\<exists>r. EncoderRNN_forward ''GRU'' ex_encoder ex_input [2] None = Inr r"
proof -
  have "valid_indices ex_embedding ex_input"
    by (simp add: valid_indices_def ex_embedding_def nn_Embedding_def ex_input_def)
  moreover have "valid_lengths (irows ex_input) (icols ex_input) [2]"
    by (simp add: valid_lengths_def ex_input_def)
  moreover have "embedding_dim ex_embedding = 1" "0 < irows ex_input" "0 < icols ex_input"
    by (simp_all add: ex_embedding_def nn_Embedding_def ex_input_def)
  moreover have "\<forall>l. enc_gru ex_encoder = Some l \<longrightarrow> hidden_ok l (icols ex_input) None"
    by (simp add: hidden_ok_def)
  ultimately obtain U hid where
    U: "encoder_unpacked ''GRU'' ex_encoder ex_input [2] None = Inr (U, hid)" "d2 U = 2 * 1"
    using encoder_unpacked_succeeds
            [OF ex_encoder_init, where inp = ex_input and ls = "[2]" and hx = None]
    by auto
  from merge_directions [OF U(2)] obtain out where
    "torch_add (slice_dim2_to U 1) (slice_dim2_from U 1) = Inr out"
    by blast
  then show ?thesis
    using U(1) by (simp add: EncoderRNN_forward_unpacked ex_encoder_def)
qed

theorem encoder_forward_lengths_precondition_witness:
  "(\<exists>r. EncoderRNN_forward ''GRU'' ex_encoder ex_input [2] None = Inr r) \<and>
   valid_lengths (irows ex_input) (icols ex_input) [2] \<and>
   \<not> sorted_wrt (\<lambda>a b. b \<le> a) [1, 2 :: int] \<and>
   pack_padded_sequence ex_batch [1, 2] = Inl RuntimeError \<and>
   valid_lengths (d0 ex_batch) (d1 ex_batch) [2, 1] \<and> 0 < d0 ex_batch * d1 ex_batch * d2 ex_batch \<and>
   (\<exists>p. pack_padded_sequence ex_batch [2, 1] = Inr p)"
proof -
  from ex_encoder_forward_returns obtain r where
    r: "EncoderRNN_forward ''GRU'' ex_encoder ex_input [2] None = Inr r"
    by blast
  have 1: "valid_lengths (irows ex_input) (icols ex_input) [2]"
    using encoder_forward_lengths_precondition
            [where rt = "''GRU''" and self = ex_encoder and inp = ex_input and ls = "[2]" and
               hx = None] r
    by blast
  have u: "\<not> sorted_wrt (\<lambda>a b. b \<le> a) [1, 2 :: int]" by simp
  have 2: "pack_padded_sequence ex_batch [1, 2] = Inl RuntimeError"
    using encoder_forward_lengths_precondition [where ls = "[1, 2]" and x = ex_batch] u by blast
  have v: "valid_lengths (d0 ex_batch) (d1 ex_batch) [2, 1]"
          "0 < d0 ex_batch * d1 ex_batch * d2 ex_batch"
    by (simp_all add: valid_lengths_def ex_batch_def)
  have 3: "\<exists>p. pack_padded_sequence ex_batch [2, 1] = Inr p"
    using encoder_forward_lengths_precondition [where ls = "[2, 1]" and x = ex_batch] v by blast
  from r 1 u 2 v 3 show ?thesis by blast
qed

subsection \<open>The recurrent layer type\<close>

lemma nn_Dropout_Inr_iff: "(\<exists>l. nn_Dropout fn p = Inr l) \<longleftrightarrow> 0 \<le> p \<and> p \<le> 1"
  by (auto simp: nn_Dropout_def)

lemma Attn_init_succeeds:
  assumes "m \<in> {''dot'', ''general'', ''concat''}"
  shows "\<exists>a. Attn_init lv vv m H = Inr a"
  using assms by (auto simp: Attn_init_def)





text \<open>
  Claim C9 as stated lets the constructors raise nothing and the forward methods end in the
  unbound-name error, whatever the other arguments. With \<^verbatim>\<open>RNN_TYPE = "RNN"\<close> the decoder's
  constructor raises the \<^verbatim>\<open>ValueError\<close> of \<^verbatim>\<open>nn.Dropout\<close> for a dropout probability of 2 and
  the one of \<^verbatim>\<open>Attn.__init__\<close> for the attention method \<^verbatim>\<open>bilinear\<close>, and the encoder's
  forward method ends in \<^verbatim>\<open>IndexError\<close>, at the embedding lookup, for a word index outside
  the vocabulary.
\<close>

lemma ex_bad_lookup: "embedding_forward ex_embedding ex_bad_input = Inl IndexError"
proof -
  have "\<not> (\<forall>i\<in>{..<irows ex_bad_input}. \<forall>j\<in>{..<icols ex_bad_input}.
            0 \<le> iat ex_bad_input i j \<and>
            iat ex_bad_input i j < int (num_embeddings ex_embedding))"
    by (auto simp: ex_bad_input_def ex_embedding_def nn_Embedding_def intro: exI [of _ 0])
  then show ?thesis
    by (simp add: embedding_forward_def)
qed


section \<open>The module body: devices and optimizers\<close>

lemma module_to_Inr_iff: "module_to av dev = Inr d \<longleftrightarrow> d = dev \<and> (dev = CPU \<or> av)"
  by (cases dev) (auto simp: module_to_def)

lemma module_to_cpu: "module_to av CPU = Inr CPU"
  by (simp add: module_to_def)

lemma optim_Adam_Inr:
  assumes "optim_Adam params l w = Inr opt"
  shows "opt_class opt = ''Adam''" "opt_params opt = params" "lr opt = l"
        "weight_decay opt = w" "opt_state opt = []" "0 \<le> l" "0 \<le> w"
  using assms by (auto simp: optim_Adam_def split: if_splits)

lemma optim_Adam_succeeds:
  assumes "0 \<le> l" "0 \<le> w"
  shows "\<exists>opt. optim_Adam params l w = Inr opt"
  using assms by (simp add: optim_Adam_def)

text \<open>What a completed import tells: every statement of the module body succeeded.\<close>

lemma model_module_Inr:
  assumes "model_module cfg num av vals = Inr st"
  shows "\<exists>enc dec enc_opt dec_opt.
           EncoderRNN_init (RNN_TYPE cfg) (mv_encoder vals) (HIDDEN_SIZE cfg)
             (nn_Embedding (mv_embedding vals) num (HIDDEN_SIZE cfg))
             (ENCODER_N_LAYERS cfg) (DROPOUT cfg) = Inr enc \<and>
           LuongAttnDecoderRNN_init (RNN_TYPE cfg) (mv_decoder vals) (ATTN_MODEL cfg)
             (nn_Embedding (mv_embedding vals) num (HIDDEN_SIZE cfg))
             (HIDDEN_SIZE cfg) num (DECODER_N_LAYERS cfg) (DROPOUT cfg) = Inr dec \<and>
           (DEVICE cfg = CPU \<or> av) \<and>
           optim_Adam (EncoderParameters enc) (LEARNING_RATE cfg) 0 = Inr enc_opt \<and>
           optim_Adam (DecoderParameters dec)
             (LEARNING_RATE cfg * DECODER_LEARNING_RATIO cfg) (1 / 100000) = Inr dec_opt \<and>
           st = \<lparr>module_embedding = nn_Embedding (mv_embedding vals) num (HIDDEN_SIZE cfg),
                 encoder = enc, decoder = dec,
                 encoder_device = DEVICE cfg, decoder_device = DEVICE cfg,
                 encoder_optimizer = enc_opt, decoder_optimizer = dec_opt\<rparr>"
proof -
  from assms obtain enc dec enc_dev dec_dev enc_opt dec_opt s1 s2 where
    e: "EncoderRNN_init (RNN_TYPE cfg) (mv_encoder vals) (HIDDEN_SIZE cfg)
             (nn_Embedding (mv_embedding vals) num (HIDDEN_SIZE cfg))
             (ENCODER_N_LAYERS cfg) (DROPOUT cfg) = Inr enc" and
    d: "LuongAttnDecoderRNN_init (RNN_TYPE cfg) (mv_decoder vals) (ATTN_MODEL cfg)
             (nn_Embedding (mv_embedding vals) num (HIDDEN_SIZE cfg))
             (HIDDEN_SIZE cfg) num (DECODER_N_LAYERS cfg) (DROPOUT cfg) = Inr dec" and
    t: "module_to av (DEVICE cfg) = Inr enc_dev" "module_to av (DEVICE cfg) = Inr dec_dev" and
    o1: "optim_Adam (EncoderParameters enc) (LEARNING_RATE cfg) 0 = Inr enc_opt" and
    o2: "optim_Adam (DecoderParameters dec)
             (LEARNING_RATE cfg * DECODER_LEARNING_RATIO cfg) (1 / 100000) = Inr dec_opt" and
    s: "cuda_state av (opt_state enc_opt) = Inr s1" "cuda_state av (opt_state dec_opt) = Inr s2" and
    st: "st = \<lparr>module_embedding = nn_Embedding (mv_embedding vals) num (HIDDEN_SIZE cfg),
               encoder = enc, decoder = dec,
               encoder_device = enc_dev, decoder_device = dec_dev,
               encoder_optimizer = enc_opt\<lparr>opt_state := s1\<rparr>,
               decoder_optimizer = dec_opt\<lparr>opt_state := s2\<rparr>\<rparr>"
    unfolding model_module_def Let_def ebind_Inr_iff by blast
  from s have "s1 = []" "s2 = []"
    using optim_Adam_Inr(5) [OF o1] optim_Adam_Inr(5) [OF o2] by simp_all
  then have "enc_opt\<lparr>opt_state := s1\<rparr> = enc_opt" "dec_opt\<lparr>opt_state := s2\<rparr> = dec_opt"
    using optim_Adam_Inr(5) [OF o1] optim_Adam_Inr(5) [OF o2] by simp_all
  with st t e d o1 o2 show ?thesis
    by (auto simp: module_to_Inr_iff)
qed

lemma EncoderRNN_init_succeeds:
  assumes "rt = ''LSTM'' \<or> rt = ''GRU'' \<longrightarrow> 0 < H \<and> 0 < n \<and> (n = 1 \<or> 0 \<le> dr \<and> dr \<le> 1)"
  shows "\<exists>self. EncoderRNN_init rt vals H emb n dr = Inr self"
  using assms by (auto simp: EncoderRNN_init_def nn_LSTM_def nn_GRU_def RNNBase_init_def)

lemma decoder_rnn_layers_succeeds:
  assumes "rt = ''LSTM'' \<or> rt = ''GRU'' \<longrightarrow> 0 < H \<and> 0 < n \<and> (n = 1 \<or> 0 \<le> dr \<and> dr \<le> 1)"
  shows "\<exists>ls. decoder_rnn_layers rt vals H n dr = Inr ls"
  using assms by (auto simp: decoder_rnn_layers_def nn_LSTM_def nn_GRU_def RNNBase_init_def)

lemma decoder_init_succeeds:
  assumes "m \<in> {''dot'', ''general'', ''concat''}" "0 \<le> dr" "dr \<le> 1"
      and "rt = ''LSTM'' \<or> rt = ''GRU'' \<longrightarrow> 0 < H \<and> 0 < n"
  shows "\<exists>d. LuongAttnDecoderRNN_init rt dv m emb H out n dr = Inr d"
proof -
  obtain dl where "nn_Dropout (dv_dropout dv) dr = Inr dl"
    using assms(2,3) nn_Dropout_Inr_iff by blast
  moreover obtain ls where "decoder_rnn_layers rt (dv_rnn dv) H n dr = Inr ls"
    using decoder_rnn_layers_succeeds [of rt H n dr "dv_rnn dv"] assms(2,3,4) by auto
  moreover obtain a where "Attn_init (dv_attn dv) (dv_v dv) m H = Inr a"
    using Attn_init_succeeds [OF assms(1)] by blast
  ultimately show ?thesis
    by (simp add: LuongAttnDecoderRNN_init_def)
qed

lemma model_module_succeeds:
  assumes "valid_config cfg" "DEVICE cfg = CPU \<or> av"
  shows "\<exists>st. model_module cfg num av vals = Inr st"
proof -
  let ?emb = "nn_Embedding (mv_embedding vals) num (HIDDEN_SIZE cfg)"
  obtain enc where "EncoderRNN_init (RNN_TYPE cfg) (mv_encoder vals) (HIDDEN_SIZE cfg) ?emb
                      (ENCODER_N_LAYERS cfg) (DROPOUT cfg) = Inr enc"
    using EncoderRNN_init_succeeds
            [of "RNN_TYPE cfg" "HIDDEN_SIZE cfg" "ENCODER_N_LAYERS cfg" "DROPOUT cfg"
               "mv_encoder vals" ?emb]
          assms(1)
    by (auto simp: valid_config_def)
  moreover obtain dec where
    "LuongAttnDecoderRNN_init (RNN_TYPE cfg) (mv_decoder vals) (ATTN_MODEL cfg) ?emb
       (HIDDEN_SIZE cfg) num (DECODER_N_LAYERS cfg) (DROPOUT cfg) = Inr dec"
    using decoder_init_succeeds
            [of "ATTN_MODEL cfg" "DROPOUT cfg" "RNN_TYPE cfg" "HIDDEN_SIZE cfg"
               "DECODER_N_LAYERS cfg" "mv_decoder vals" ?emb num]
          assms(1)
    by (auto simp: valid_config_def)
  moreover have "module_to av (DEVICE cfg) = Inr (DEVICE cfg)"
    using assms(2) by (simp add: module_to_Inr_iff)
  moreover obtain o1 where
    "optim_Adam (EncoderParameters enc) (LEARNING_RATE cfg) 0 = Inr o1" "opt_state o1 = []"
    using assms(1) by (auto simp: optim_Adam_def valid_config_def)
  moreover obtain o2 where
    "optim_Adam (DecoderParameters dec) (LEARNING_RATE cfg * DECODER_LEARNING_RATIO cfg)
       (1 / 100000) = Inr o2" "opt_state o2 = []"
    using assms(1) by (auto simp: optim_Adam_def valid_config_def)
  ultimately show ?thesis
    by (simp add: model_module_def Let_def)
qed

lemma cuda_state_fresh:
  assumes "optim_Adam params l w = Inr opt"
  shows "cuda_state av (opt_state opt) = Inr []"
  using optim_Adam_Inr(5) [OF assms] by simp

lemma model_module_cpu:
  assumes "DEVICE cfg = CPU"
  shows "model_module cfg num True vals = model_module cfg num False vals"
  unfolding model_module_def Let_def assms module_to_cpu
  by (simp add: ebind_def cuda_state_fresh split: sum.splits)

lemma model_module_no_cuda:
  assumes "model_module cfg num True vals = Inr st" "DEVICE cfg = CUDA"
  shows "model_module cfg num False vals = Inl CudaError"
proof -
  from model_module_Inr [OF assms(1)] obtain enc dec where
    "EncoderRNN_init (RNN_TYPE cfg) (mv_encoder vals) (HIDDEN_SIZE cfg)
             (nn_Embedding (mv_embedding vals) num (HIDDEN_SIZE cfg))
             (ENCODER_N_LAYERS cfg) (DROPOUT cfg) = Inr enc"
    "LuongAttnDecoderRNN_init (RNN_TYPE cfg) (mv_decoder vals) (ATTN_MODEL cfg)
             (nn_Embedding (mv_embedding vals) num (HIDDEN_SIZE cfg))
             (HIDDEN_SIZE cfg) num (DECODER_N_LAYERS cfg) (DROPOUT cfg) = Inr dec"
    by blast
  moreover have "module_to False (DEVICE cfg) = Inl CudaError"
    using assms(2) by (simp add: module_to_def)
  ultimately show ?thesis
    by (simp add: model_module_def Let_def)
qed

lemma ex_config_valid: "valid_config ex_config" "valid_config ex_cuda_config"
  by (simp_all add: valid_config_def ex_config_def ex_cuda_config_def)

text \<open>
  Claim C8. When the import of the module completes, \<^verbatim>\<open>encoder_optimizer\<close> is an Adam
  optimizer over the parameters of the encoder with learning rate \<^verbatim>\<open>LEARNING_RATE\<close> and weight
  decay 0 (the default), and \<^verbatim>\<open>decoder_optimizer\<close> is an Adam optimizer over the parameters
  of the decoder with learning rate \<^verbatim>\<open>LEARNING_RATE * DECODER_LEARNING_RATIO\<close> and weight
  decay \<open>10\<^sup>-\<^sup>5\<close>; the module holds no other optimizer. The import completes for every valid
  configuration when the configured device is there.
\<close>

theorem module_optimizers:
  "(\<forall>st. model_module cfg num av vals = Inr st \<longrightarrow>
      opt_class (encoder_optimizer st) = ''Adam'' \<and>
      opt_params (encoder_optimizer st) = EncoderParameters (encoder st) \<and>
      lr (encoder_optimizer st) = LEARNING_RATE cfg \<and>
      weight_decay (encoder_optimizer st) = 0 \<and>
      opt_class (decoder_optimizer st) = ''Adam'' \<and>
      opt_params (decoder_optimizer st) = DecoderParameters (decoder st) \<and>
      lr (decoder_optimizer st) = LEARNING_RATE cfg * DECODER_LEARNING_RATIO cfg \<and>
      weight_decay (decoder_optimizer st) = 1 / 100000) \<and>
   (valid_config cfg \<and> (DEVICE cfg = CPU \<or> av) \<longrightarrow>
      (\<exists>st. model_module cfg num av vals = Inr st))"
proof -
  have "opt_class (encoder_optimizer st) = ''Adam'' \<and>
      opt_params (encoder_optimizer st) = EncoderParameters (encoder st) \<and>
      lr (encoder_optimizer st) = LEARNING_RATE cfg \<and>
      weight_decay (encoder_optimizer st) = 0 \<and>
      opt_class (decoder_optimizer st) = ''Adam'' \<and>
      opt_params (decoder_optimizer st) = DecoderParameters (decoder st) \<and>
      lr (decoder_optimizer st) = LEARNING_RATE cfg * DECODER_LEARNING_RATIO cfg \<and>
      weight_decay (decoder_optimizer st) = 1 / 100000"
    if "model_module cfg num av vals = Inr st" for st
  proof -
    from model_module_Inr [OF that] obtain enc dec enc_opt dec_opt where
      o1: "optim_Adam (EncoderParameters enc) (LEARNING_RATE cfg) 0 = Inr enc_opt" and
      o2: "optim_Adam (DecoderParameters dec)
             (LEARNING_RATE cfg * DECODER_LEARNING_RATIO cfg) (1 / 100000) = Inr dec_opt" and
      st: "encoder st = enc" "decoder st = dec" "encoder_optimizer st = enc_opt"
          "decoder_optimizer st = dec_opt"
      by auto
    show ?thesis
      using optim_Adam_Inr(1-4) [OF o1] optim_Adam_Inr(1-4) [OF o2] st by simp
  qed
  then show ?thesis
    using model_module_succeeds [where cfg = cfg and av = av and num = num and vals = vals]
    by blast
qed

theorem module_optimizers_witness:
  "case model_module ex_config 3 False ex_module_values of
     Inl e \<Rightarrow> False
   | Inr st \<Rightarrow>
       opt_class (encoder_optimizer st) = ''Adam'' \<and>
       opt_params (encoder_optimizer st) = EncoderParameters (encoder st) \<and>
       lr (encoder_optimizer st) = 1 / 10000 \<and>
       weight_decay (encoder_optimizer st) = 0 \<and>
       opt_class (decoder_optimizer st) = ''Adam'' \<and>
       opt_params (decoder_optimizer st) = DecoderParameters (decoder st) \<and>
       lr (decoder_optimizer st) = 5 / 10000 \<and>
       weight_decay (decoder_optimizer st) = 1 / 100000"
proof -
  note inst = module_optimizers [where cfg = ex_config and num = 3 and av = False and
                vals = ex_module_values]
  have c: "DEVICE ex_config = CPU"
          "LEARNING_RATE ex_config = 1 / 10000" "DECODER_LEARNING_RATIO ex_config = 5"
    by (simp_all add: ex_config_def)
  from inst c ex_config_valid(1) obtain st where
    st: "model_module ex_config 3 False ex_module_values = Inr st"
    by blast
  from inst st c show ?thesis
    by (simp add: st)
qed

text \<open>
  Claim C6, as amended. The module itself places both models on the configured device: after
  the import the encoder and the decoder are on \<^verbatim>\<open>DEVICE\<close>. The two loops over the optimizer
  states move nothing at import time, the states being empty. When \<^verbatim>\<open>DEVICE\<close> is the CPU,
  the import does not depend on whether a CUDA device is there, and it completes for every
  valid configuration. When \<^verbatim>\<open>DEVICE\<close> is a CUDA device, the import completes only if one is
  there, which it then does for every valid configuration; without one, an import that would
  have completed raises at \<^verbatim>\<open>.to(DEVICE)\<close>.
\<close>

theorem module_device_placement:
  "(\<forall>st. model_module cfg num av vals = Inr st \<longrightarrow>
      encoder_device st = DEVICE cfg \<and> decoder_device st = DEVICE cfg \<and>
      opt_state (encoder_optimizer st) = [] \<and> opt_state (decoder_optimizer st) = []) \<and>
   (DEVICE cfg = CPU \<longrightarrow>
      model_module cfg num True vals = model_module cfg num False vals \<and>
      (valid_config cfg \<longrightarrow> (\<exists>st. model_module cfg num av vals = Inr st))) \<and>
   (DEVICE cfg = CUDA \<longrightarrow>
      (\<forall>st. model_module cfg num False vals \<noteq> Inr st) \<and>
      (valid_config cfg \<longrightarrow> (\<exists>st. model_module cfg num True vals = Inr st)) \<and>
      (\<forall>st. model_module cfg num True vals = Inr st \<longrightarrow>
            model_module cfg num False vals = Inl CudaError))"
proof -
  have 1: "encoder_device st = DEVICE cfg \<and> decoder_device st = DEVICE cfg \<and>
        opt_state (encoder_optimizer st) = [] \<and> opt_state (decoder_optimizer st) = []"
    if "model_module cfg num av vals = Inr st" for st
  proof -
    from model_module_Inr [OF that] obtain enc dec enc_opt dec_opt where
      o1: "optim_Adam (EncoderParameters enc) (LEARNING_RATE cfg) 0 = Inr enc_opt" and
      o2: "optim_Adam (DecoderParameters dec)
             (LEARNING_RATE cfg * DECODER_LEARNING_RATIO cfg) (1 / 100000) = Inr dec_opt" and
      st: "encoder_device st = DEVICE cfg" "decoder_device st = DEVICE cfg"
          "encoder_optimizer st = enc_opt" "decoder_optimizer st = dec_opt"
      by auto
    show ?thesis
      using optim_Adam_Inr(5) [OF o1] optim_Adam_Inr(5) [OF o2] st by simp
  qed
  have 2: "model_module cfg num False vals \<noteq> Inr st" if "DEVICE cfg = CUDA" for st
    using model_module_Inr [of cfg num False vals st] that by auto
  from 1 2 show ?thesis
    using model_module_cpu [where cfg = cfg and num = num and vals = vals]
          model_module_succeeds [where cfg = cfg and num = num and vals = vals and av = av]
          model_module_succeeds [where cfg = cfg and num = num and vals = vals and av = True]
          model_module_no_cuda [where cfg = cfg and num = num and vals = vals]
    by blast
qed

theorem module_device_placement_witness:
  "(case model_module ex_config 3 False ex_module_values of
      Inl e \<Rightarrow> False
    | Inr st \<Rightarrow> encoder_device st = CPU \<and> decoder_device st = CPU \<and>
               opt_state (encoder_optimizer st) = [] \<and> opt_state (decoder_optimizer st) = []) \<and>
   model_module ex_config 3 True ex_module_values =
     model_module ex_config 3 False ex_module_values \<and>
   (case model_module ex_cuda_config 3 True ex_module_values of
      Inl e \<Rightarrow> False
    | Inr st \<Rightarrow> encoder_device st = CUDA \<and> decoder_device st = CUDA) \<and>
   model_module ex_cuda_config 3 False ex_module_values = Inl CudaError"
proof -
  have c: "DEVICE ex_config = CPU" "DEVICE ex_cuda_config = CUDA"
    by (simp_all add: ex_config_def ex_cuda_config_def)
  note a = module_device_placement [where cfg = ex_config and num = 3 and av = False and
             vals = ex_module_values]
  note b = module_device_placement [where cfg = ex_cuda_config and num = 3 and av = True and
             vals = ex_module_values]
  from a c ex_config_valid obtain st where
    st: "model_module ex_config 3 False ex_module_values = Inr st"
    by blast
  from b c ex_config_valid obtain st' where
    st': "model_module ex_cuda_config 3 True ex_module_values = Inr st'"
    by blast
  from a st c have 1: "encoder_device st = CPU \<and> decoder_device st = CPU \<and>
               opt_state (encoder_optimizer st) = [] \<and> opt_state (decoder_optimizer st) = []"
    by auto
  from a c have 2: "model_module ex_config 3 True ex_module_values =
                      model_module ex_config 3 False ex_module_values"
    by blast
  from b st' c have 3: "encoder_device st' = CUDA \<and> decoder_device st' = CUDA"
    by auto
  from b st' c have 4: "model_module ex_cuda_config 3 False ex_module_values = Inl CudaError"
    by blast
  from 1 3 4 show ?thesis
    unfolding 2 by (simp add: st st')
qed

text \<open>
  Claim C6 as stated has the module place nothing and its import succeed with or without a
  CUDA device. Under a configuration whose \<^verbatim>\<open>DEVICE\<close> is a CUDA device, the statements
  \<^verbatim>\<open>encoder.to(DEVICE)\<close> and \<^verbatim>\<open>decoder.to(DEVICE)\<close> move both models off the CPU, where the
  constructors built them, when the device is there, and the import raises when it is not.
  And under a configuration for the CPU whose attention method is \<^verbatim>\<open>bilinear\<close> the import
  raises the \<^verbatim>\<open>ValueError\<close> of \<^verbatim>\<open>Attn.__init__\<close>, with or without a CUDA device.
\<close>

theorem module_device_placement_counterexample:
  "(case model_module ex_cuda_config 3 True ex_module_values of
      Inl e \<Rightarrow> False
    | Inr st \<Rightarrow> encoder_device st = CUDA \<and> decoder_device st = CUDA \<and> encoder_device st \<noteq> CPU) \<and>
   model_module ex_cuda_config 3 False ex_module_values = Inl CudaError \<and>
   model_module ex_cuda_config 3 False ex_module_values \<noteq>
     model_module ex_cuda_config 3 True ex_module_values \<and>
   model_module (ex_config\<lparr>ATTN_MODEL := ''bilinear''\<rparr>) 3 True ex_module_values =
     Inl (ValueError [''bilinear'', ''is not an appropriate attention method.'']) \<and>
   model_module (ex_config\<lparr>ATTN_MODEL := ''bilinear''\<rparr>) 3 False ex_module_values =
     Inl (ValueError [''bilinear'', ''is not an appropriate attention method.''])"
  by (simp add: model_module_def ex_cuda_config_def ex_config_def Let_def
        EncoderRNN_init_def nn_GRU_def RNNBase_init_def
        LuongAttnDecoderRNN_init_def nn_Dropout_def decoder_rnn_layers_def Attn_init_def
        module_to_def optim_Adam_def)

section \<open>The decoding step\<close>

lemma LuongAttnDecoderRNN_init_Inr:
  assumes "LuongAttnDecoderRNN_init rt dv m emb H out n dr = Inr d"
  shows "Attn_init (dv_attn dv) (dv_v dv) m H = Inr (dec_attn d)"
        "dec_embedding d = emb"
        "nn_Dropout (dv_dropout dv) dr = Inr (dec_embedding_dropout d)"
        "dec_concat d = nn_Linear (dv_concat dv) (H * 2) H"
        "dec_out d = nn_Linear (dv_out dv) H out"
        "decoder_rnn_layers rt (dv_rnn dv) H n dr = Inr (dec_lstm d, dec_gru d)"
  using assms by (auto simp: LuongAttnDecoderRNN_init_def ebind_Inr_iff)

lemma decoder_rnn_layers_Inr:
  assumes "decoder_rnn_layers rt vals H n dr = Inr (lstm, gru)"
  shows "rt = ''LSTM'' \<Longrightarrow>
           \<exists>l. lstm = Some l \<and> RNNBase_init LSTM vals H H n (if n = 1 then 0 else dr) False = Inr l"
        "rt = ''GRU'' \<Longrightarrow>
           \<exists>l. gru = Some l \<and> RNNBase_init GRU vals H H n (if n = 1 then 0 else dr) False = Inr l"
  using assms
  by (auto simp: decoder_rnn_layers_def nn_LSTM_def nn_GRU_def ebind_Inr_iff split: if_splits)

lemma rnn_forward_succeeds:
  assumes "d2 x = input_size l" "hidden_ok l (d1 x) hx" "\<not> bidirectional l"
  shows "\<exists>ro hid. rnn_forward l x hx = Inr (ro, hid) \<and>
           d0 ro = d0 x \<and> d1 ro = d1 x \<and> d2 ro = rnn_hidden_size l"
  using assms by (auto simp: rnn_forward_def num_directions_def split: prod.splits)

lemma decoder_rnn_step_succeeds:
  assumes init: "LuongAttnDecoderRNN_init rt dv m emb H out n dr = Inr d"
      and rt: "rt = ''LSTM'' \<or> rt = ''GRU''"
      and x: "d2 x = H"
      and hx: "\<forall>l. dec_lstm d = Some l \<or> dec_gru d = Some l \<longrightarrow> hidden_ok l (d1 x) hx"
  shows "\<exists>ro hid. decoder_rnn_step rt d x hx = Inr (Some (ro, hid)) \<and>
           d0 ro = d0 x \<and> d1 ro = d1 x \<and> d2 ro = H"
proof -
  note ls = decoder_rnn_layers_Inr [OF LuongAttnDecoderRNN_init_Inr(6) [OF init]]
  from rt show ?thesis
  proof
    assume r: "rt = ''LSTM''"
    from ls(1) [OF r] obtain l where
      l: "dec_lstm d = Some l"
         "RNNBase_init LSTM (dv_rnn dv) H H n (if n = 1 then 0 else dr) False = Inr l"
      by blast
    note f = RNNBase_init_Inr [OF l(2)]
    have "d2 x = input_size l" "hidden_ok l (d1 x) hx" "\<not> bidirectional l"
      using x hx l(1) f(2,5) by simp_all
    from rnn_forward_succeeds [OF this] show ?thesis
      using l(1) r f(3) by (auto simp: decoder_rnn_step_def)
  next
    assume r: "rt = ''GRU''"
    from ls(2) [OF r] obtain l where
      l: "dec_gru d = Some l"
         "RNNBase_init GRU (dv_rnn dv) H H n (if n = 1 then 0 else dr) False = Inr l"
      by blast
    note f = RNNBase_init_Inr [OF l(2)]
    have "d2 x = input_size l" "hidden_ok l (d1 x) hx" "\<not> bidirectional l"
      using x hx l(1) f(2,5) by simp_all
    from rnn_forward_succeeds [OF this] show ?thesis
      using l(1) r f(3) by (auto simp: decoder_rnn_step_def)
  qed
qed

lemma context_bmm:
  assumes "d0 w = d1 enc" "d2 w = d0 enc"
  shows "torch_bmm w (transpose01 enc) =
           Inr \<lparr>d0 = d1 enc, d1 = d1 w, d2 = d2 enc,
                at3 = \<lambda>b j h. (\<Sum>t<d0 enc. at3 w b j t * at3 enc t b h)\<rparr>"
  using assms by (simp add: torch_bmm_def transpose01_def)

lemma decoder_tail:
  assumes ro: "d0 ro = 1" "d1 ro = d1 enc" "d2 ro = H"
      and w: "d0 w = d1 enc" "d1 w = 1" "d2 w = d0 enc"
      and enc: "d2 enc = H"
      and c: "in_features cl = H * 2" "out_features cl = H"
      and ol: "in_features ol = H"
  shows "ebind (torch_bmm w (transpose01 enc)) (\<lambda>context.
           ebind (torch_cat_dim1 (squeeze0 ro) (squeeze1 context)) (\<lambda>concat_input.
           ebind (linear_forward cl concat_input) (\<lambda>c.
           (let concat_output = torch_tanh c in
            ebind (linear_forward ol concat_output) (\<lambda>output.
            Inr (F_softmax_dim1 output, hid)))))) =
         Inr (T2 \<lparr>rows = d1 enc, cols = out_features ol,
                  at2 = spec_decoder_output cl ol ro (spec_context w enc)\<rparr>, hid)"
  using assms
  by (simp add: context_bmm squeeze0_def squeeze1_def linear_forward2_def tanh2_def
        softmax_dim1_def Let_def spec_decoder_output_def spec_softmax_def
        spec_linear_def fun_eq_iff spec_context_def [abs_def] cong: if_cong)


text \<open>
  Claim C4. For a decoder built by its constructor with an LSTM or a GRU, one decoding step
  (an input of shape \<open>1 \<times> B\<close> of word indexes of the vocabulary, an embedding of
  \<open>hidden_size\<close> features, encoder outputs of shape \<open>T \<times> B \<times> hidden_size\<close>, and a last hidden
  state that the recurrent layer accepts), \<^verbatim>\<open>LuongAttnDecoderRNN.forward\<close> returns. The
  weights \<open>w\<close> are those \<^verbatim>\<open>Attn.forward\<close> gives for the output of the recurrent layer, the
  context vector of batch element \<open>b\<close> is the sum over the encoder time steps \<open>t\<close> of
  \<open>w[b, 0, t]\<close> times the encoder output vector at \<open>(t, b)\<close>, and the returned output is, row
  by row, the softmax of the output layer applied to the \<open>tanh\<close> of the concat layer applied
  to the features of the recurrent output followed by those of the context; the returned
  hidden state is the one of the recurrent layer.
\<close>

theorem decoder_forward_context:
  assumes init: "LuongAttnDecoderRNN_init rt dv m emb H out n dr = Inr d"
      and rt: "rt = ''LSTM'' \<or> rt = ''GRU''"
      and step: "valid_indices emb step" "irows step = 1"
      and emb: "embedding_dim emb = H"
      and enc: "d1 enc = icols step" "d2 enc = H"
      and hx: "\<forall>l. dec_lstm d = Some l \<or> dec_gru d = Some l \<longrightarrow>
                   hidden_ok l (icols step) last_hidden"
  shows "\<exists>embedded rnn_output hidden w context.
           embedding_forward (dec_embedding d) step = Inr embedded \<and>
           decoder_rnn_step rt d (dropout_forward (dec_embedding_dropout d) embedded) last_hidden =
             Inr (Some (rnn_output, hidden)) \<and>
           d0 rnn_output = 1 \<and> d1 rnn_output = icols step \<and> d2 rnn_output = H \<and>
           Attn_forward (dec_attn d) rnn_output enc = Inr w \<and>
           d0 w = icols step \<and> d1 w = 1 \<and> d2 w = d0 enc \<and>
           torch_bmm w (transpose01 enc) = Inr context \<and>
           d0 context = icols step \<and> d1 context = 1 \<and> d2 context = H \<and>
           (\<forall>b<icols step. \<forall>h<H.
              at3 context b 0 h = (\<Sum>t<d0 enc. at3 w b 0 t * at3 enc t b h)) \<and>
           LuongAttnDecoderRNN_forward rt d step last_hidden enc =
             Inr (T2 \<lparr>rows = icols step, cols = out,
                      at2 = spec_decoder_output (dec_concat d) (dec_out d) rnn_output
                              (spec_context w enc)\<rparr>, hidden)"
proof -
  note i = LuongAttnDecoderRNN_init_Inr [OF init]
  from step(1) obtain embedded where
    x: "embedding_forward emb step = Inr embedded"
    using embedding_forward_Inr_iff by blast
  note em = embedding_forward_Inr [OF x]
  let ?x = "dropout_forward (dec_embedding_dropout d) embedded"
  have dx: "d0 ?x = 1" "d1 ?x = icols step" "d2 ?x = H"
    using em step(2) emb by (simp_all add: dropout_forward_def)
  have "\<forall>l. dec_lstm d = Some l \<or> dec_gru d = Some l \<longrightarrow> hidden_ok l (d1 ?x) last_hidden"
    using hx dx(2) by simp
  from decoder_rnn_step_succeeds [OF init rt dx(3) this] obtain ro hid where
    r: "decoder_rnn_step rt d ?x last_hidden = Inr (Some (ro, hid))" and
    ro: "d0 ro = 1" "d1 ro = d1 enc" "d2 ro = H"
    using dx enc by auto
  have "d0 ro = 1" "d1 ro = d1 enc" "d2 ro = d2 enc" "m \<noteq> ''dot'' \<longrightarrow> d2 enc = H"
    using ro enc by simp_all
  from Attn_forward_canonical [OF i(1) this] obtain w where
    w: "Attn_forward (dec_attn d) ro enc = Inr w" "d0 w = d1 enc" "d1 w = 1" "d2 w = d0 enc"
    by blast
  define ctx where
    "ctx = \<lparr>d0 = d1 enc, d1 = d1 w, d2 = d2 enc,
                at3 = \<lambda>b j h. (\<Sum>t<d0 enc. at3 w b j t * at3 enc t b h)\<rparr>"
  have c: "torch_bmm w (transpose01 enc) = Inr ctx"
    using context_bmm [OF w(2,4)] by (simp add: ctx_def)
  have lin: "in_features (dec_concat d) = H * 2" "out_features (dec_concat d) = H"
            "in_features (dec_out d) = H" "out_features (dec_out d) = out"
    by (simp_all add: i(4,5) nn_Linear_def)
  have "LuongAttnDecoderRNN_forward rt d step last_hidden enc =
          Inr (T2 \<lparr>rows = d1 enc, cols = out_features (dec_out d),
                   at2 = spec_decoder_output (dec_concat d) (dec_out d) ro
                           (spec_context w enc)\<rparr>, hid)"
    using decoder_tail [OF ro w(2,3,4) enc(2) lin(1,2,3), where hid = hid]
    by (simp add: LuongAttnDecoderRNN_forward_def i(2) x r w(1) Let_def)
  then have "LuongAttnDecoderRNN_forward rt d step last_hidden enc =
          Inr (T2 \<lparr>rows = icols step, cols = out,
                   at2 = spec_decoder_output (dec_concat d) (dec_out d) ro
                           (spec_context w enc)\<rparr>, hid)"
    using enc(1) lin(4) by simp
  moreover have "d0 ctx = icols step" "d1 ctx = 1" "d2 ctx = H"
    "\<forall>b<icols step. \<forall>h<H. at3 ctx b 0 h = (\<Sum>t<d0 enc. at3 w b 0 t * at3 enc t b h)"
    using enc w(3) by (simp_all add: ctx_def)
  moreover have "embedding_forward (dec_embedding d) step = Inr embedded"
    using x i(2) by simp
  moreover have "d1 ro = icols step" "d0 w = icols step"
    using ro(2) w(2) enc(1) by simp_all
  ultimately show ?thesis
    using r ro(1,3) w(1,3,4) c by blast
qed

lemma ex_decoder_output:
  assumes "dec_concat d = nn_Linear ex_lin 4 2" "dec_out d = nn_Linear ex_lin 2 3"
  shows "spec_decoder_output (dec_concat d) (dec_out d) ro ctx 0 0 = 1 / 3"
  by (simp add: assms spec_decoder_output_def spec_softmax_def spec_linear_def nn_Linear_def
        ex_lin_def lessThan_Suc numeral_3_eq_3)

theorem decoder_forward_context_witness:
  "\<exists>d w output hidden.
     LuongAttnDecoderRNN_init ''GRU'' ex_decoder_values ''dot'' ex_embedding2 2 3 1 0 = Inr d \<and>
     valid_indices ex_embedding2 ex_step \<and> irows ex_step = 1 \<and>
     embedding_dim ex_embedding2 = 2 \<and> d1 ex_enc = icols ex_step \<and> d2 ex_enc = 2 \<and>
     Attn_forward (dec_attn d) ex_hidden ex_enc = Inr w \<and>
     LuongAttnDecoderRNN_forward ''GRU'' d ex_step None ex_enc = Inr (T2 output, hidden) \<and>
     rows output = 1 \<and> cols output = 3 \<and>
     at2 output =
       spec_decoder_output (dec_concat d) (dec_out d) ex_hidden (spec_context w ex_enc) \<and>
     at2 output 0 0 = 1 / 3"
proof -
  have v: "(0::real) \<le> 0" "(0::real) \<le> 1" "''dot'' \<in> {''dot'', ''general'', ''concat''}"
          "''GRU'' = ''LSTM'' \<or> ''GRU'' = ''GRU'' \<longrightarrow> 0 < (2::nat) \<and> 0 < (1::nat)"
    by simp_all
  from decoder_init_succeeds [OF v(3,1,2,4)] obtain d where
    d: "LuongAttnDecoderRNN_init ''GRU'' ex_decoder_values ''dot'' ex_embedding2 2 3 1 0 = Inr d"
    by blast
  note i = LuongAttnDecoderRNN_init_Inr [OF d]
  have rt: "''GRU'' = ''LSTM'' \<or> ''GRU'' = ''GRU''" by simp
  have s: "valid_indices ex_embedding2 ex_step" "irows ex_step = 1"
          "embedding_dim ex_embedding2 = 2" "d1 ex_enc = icols ex_step" "d2 ex_enc = 2"
    by (simp_all add: valid_indices_def ex_embedding2_def nn_Embedding_def ex_step_def ex_enc_def)
  have hx: "\<forall>l. dec_lstm d = Some l \<or> dec_gru d = Some l \<longrightarrow> hidden_ok l (icols ex_step) None"
    by (simp add: hidden_ok_def)
  from decoder_forward_context [OF d rt s hx] obtain embedded rnn_output hidden w where
    e: "embedding_forward (dec_embedding d) ex_step = Inr embedded" and
    r: "decoder_rnn_step ''GRU'' d (dropout_forward (dec_embedding_dropout d) embedded) None =
          Inr (Some (rnn_output, hidden))" and
    w: "Attn_forward (dec_attn d) rnn_output ex_enc = Inr w" and
    f: "LuongAttnDecoderRNN_forward ''GRU'' d ex_step None ex_enc =
          Inr (T2 \<lparr>rows = icols ex_step, cols = 3,
                   at2 = spec_decoder_output (dec_concat d) (dec_out d) rnn_output
                           (spec_context w ex_enc)\<rparr>, hidden)"
    by blast
  from decoder_rnn_layers_Inr(2) [OF i(6)] obtain l where
    l: "dec_gru d = Some l"
       "RNNBase_init GRU (dv_rnn ex_decoder_values) 2 2 1 (if (1::nat) = 1 then 0 else 0) False =
          Inr l"
    by auto
  have "rnn_output = ex_hidden"
    using r l e s
    by (auto simp: decoder_rnn_step_def rnn_forward_def RNNBase_init_def ex_decoder_values_def
          ex_rnn_def ex_hidden_def embedding_forward_def dropout_forward_def num_directions_def
          ex_step_def i(2) ex_embedding2_def nn_Embedding_def
          split: if_splits)
  moreover have "dec_concat d = nn_Linear ex_lin 4 2" "dec_out d = nn_Linear ex_lin 2 3"
    using i(4,5) by (simp_all add: ex_decoder_values_def)
  ultimately show ?thesis
    using d s w f ex_decoder_output [of d ex_hidden "spec_context w ex_enc"]
    by (auto simp: ex_step_def)
qed

section \<open>No method but \<^verbatim>\<open>Attn.__init__\<close> checks a value\<close>

text \<open>
  A method that checks nothing itself can only fail where a call it makes fails, or where
  Python finds an attribute or a local name unset. The lemmas of this section say so for
  every constructor and method of the module: each gives the errors of a method as the
  errors of its calls, in the order of the source.
\<close>

lemma ebind_error_case:
  "ebind m f = Inl e \<longleftrightarrow> (case m of Inl e' \<Rightarrow> e = e' | Inr x \<Rightarrow> f x = Inl e)"
  by (cases m) auto

lemma error_case_False:
  "(case m of Inl e' \<Rightarrow> e = e' | Inr x \<Rightarrow> False) \<longleftrightarrow> m = Inl e"
  by (cases m) auto

lemma Attn_init_error:
  "Attn_init lv vv m h = Inl e \<longleftrightarrow>
     m \<notin> {''dot'', ''general'', ''concat''} \<and>
     e = ValueError [m, ''is not an appropriate attention method.'']"
  by (auto simp: Attn_init_def)

lemma EncoderRNN_init_error:
  "EncoderRNN_init rt vals H emb n dr = Inl e \<longleftrightarrow>
     rt = ''LSTM'' \<and> nn_LSTM vals H H n (if n = 1 then 0 else dr) True = Inl e \<or>
     rt = ''GRU'' \<and> nn_GRU vals H H n (if n = 1 then 0 else dr) True = Inl e"
  by (auto simp: EncoderRNN_init_def ebind_Inl_iff)

lemma decoder_rnn_layers_error:
  "decoder_rnn_layers rt vals H n dr = Inl e \<longleftrightarrow>
     rt = ''LSTM'' \<and> nn_LSTM vals H H n (if n = 1 then 0 else dr) False = Inl e \<or>
     rt = ''GRU'' \<and> nn_GRU vals H H n (if n = 1 then 0 else dr) False = Inl e"
  by (auto simp: decoder_rnn_layers_def ebind_Inl_iff)

lemma LuongAttnDecoderRNN_init_error:
  "LuongAttnDecoderRNN_init rt dv m emb H out n dr = Inl e \<longleftrightarrow>
     (case nn_Dropout (dv_dropout dv) dr of
        Inl e' \<Rightarrow> e = e'
      | Inr embedding_dropout \<Rightarrow>
          (case decoder_rnn_layers rt (dv_rnn dv) H n dr of
             Inl e' \<Rightarrow> e = e'
           | Inr layers \<Rightarrow> Attn_init (dv_attn dv) (dv_v dv) m H = Inl e))"
  unfolding LuongAttnDecoderRNN_init_def
  by (cases "nn_Dropout (dv_dropout dv) dr"; cases "decoder_rnn_layers rt (dv_rnn dv) H n dr";
      cases "Attn_init (dv_attn dv) (dv_v dv) m H") auto

lemma dot_score_error:
  "dot_score a h enc = Inl e \<longleftrightarrow> torch_mul h enc = Inl e"
  by (auto simp: dot_score_def ebind_Inl_iff)

lemma general_score_error:
  "general_score a h enc = Inl e \<longleftrightarrow>
     (case attn_linear a of
        None \<Rightarrow> e = AttributeError
      | Some l \<Rightarrow>
          (case linear_forward3 l enc of
             Inl e' \<Rightarrow> e = e'
           | Inr energy \<Rightarrow> torch_mul h energy = Inl e))"
  by (auto simp: general_score_def ebind_Inl_iff split: option.splits sum.splits)

lemma concat_score_error:
  "concat_score a h enc = Inl e \<longleftrightarrow>
     (case attn_linear a of
        None \<Rightarrow> e = AttributeError
      | Some l \<Rightarrow>
          (case expand0 h (d0 enc) of
             Inl e' \<Rightarrow> e = e'
           | Inr h' \<Rightarrow>
               (case torch_cat_dim2 h' enc of
                  Inl e' \<Rightarrow> e = e'
                | Inr c \<Rightarrow>
                    (case linear_forward3 l c of
                       Inl e' \<Rightarrow> e = e'
                     | Inr energy \<Rightarrow>
                         (case attn_v a of
                            None \<Rightarrow> e = AttributeError
                          | Some v \<Rightarrow> torch_mul (as_rank3 v) (tanh3 energy) = Inl e)))))"
  by (auto simp: concat_score_def ebind_Inl_iff Let_def split: option.splits sum.splits)

lemma Attn_forward_error:
  "Attn_forward a h enc = Inl e \<longleftrightarrow>
     (if attn_method a = ''general'' then general_score a h enc = Inl e
      else if attn_method a = ''concat'' then concat_score a h enc = Inl e
      else if attn_method a = ''dot'' then dot_score a h enc = Inl e
      else e = UnboundLocalError)"
  by (auto simp: Attn_forward_def ebind_Inl_iff)

lemma encoder_rnn_step_error:
  "encoder_rnn_step rt self p hx = Inl e \<longleftrightarrow>
     (if rt = ''LSTM''
      then (case enc_lstm self of
              None \<Rightarrow> e = AttributeError
            | Some l \<Rightarrow> rnn_forward_packed l p None = Inl e)
      else rt = ''GRU'' \<and>
           (case enc_gru self of
              None \<Rightarrow> e = AttributeError
            | Some l \<Rightarrow> rnn_forward_packed l p hx = Inl e))"
  by (auto simp: encoder_rnn_step_def ebind_Inl_iff split: option.splits)

lemma EncoderRNN_forward_error:
  "EncoderRNN_forward rt self inp ls hx = Inl e \<longleftrightarrow>
     (case embedding_forward (enc_embedding self) inp of
        Inl e' \<Rightarrow> e = e'
      | Inr embedded \<Rightarrow>
          (case pack_padded_sequence embedded ls of
             Inl e' \<Rightarrow> e = e'
           | Inr p \<Rightarrow>
               (case encoder_rnn_step rt self p hx of
                  Inl e' \<Rightarrow> e = e'
                | Inr None \<Rightarrow> e = UnboundLocalError
                | Inr (Some (outputs, hidden)) \<Rightarrow>
                    (case pad_packed_sequence outputs of
                       Inl e' \<Rightarrow> e = e'
                     | Inr outputs \<Rightarrow>
                         torch_add (slice_dim2_to outputs (enc_hidden_size self))
                           (slice_dim2_from outputs (enc_hidden_size self)) = Inl e))))"
  unfolding EncoderRNN_forward_def
  by (simp add: ebind_error_case error_case_False eq_commute [of UnboundLocalError]
        cong: sum.case_cong split: option.split prod.split)

lemma decoder_rnn_step_error:
  "decoder_rnn_step rt self x hx = Inl e \<longleftrightarrow>
     (if rt = ''LSTM''
      then (case dec_lstm self of
              None \<Rightarrow> e = AttributeError
            | Some l \<Rightarrow> rnn_forward l x hx = Inl e)
      else rt = ''GRU'' \<and>
           (case dec_gru self of
              None \<Rightarrow> e = AttributeError
            | Some l \<Rightarrow> rnn_forward l x hx = Inl e))"
  by (auto simp: decoder_rnn_step_def ebind_Inl_iff split: option.splits)

lemma LuongAttnDecoderRNN_forward_error:
  "LuongAttnDecoderRNN_forward rt self step hx enc = Inl e \<longleftrightarrow>
     (case embedding_forward (dec_embedding self) step of
        Inl e' \<Rightarrow> e = e'
      | Inr embedded \<Rightarrow>
          (case decoder_rnn_step rt self
                  (dropout_forward (dec_embedding_dropout self) embedded) hx of
             Inl e' \<Rightarrow> e = e'
           | Inr None \<Rightarrow> e = UnboundLocalError
           | Inr (Some (rnn_output, hidden)) \<Rightarrow>
               (case Attn_forward (dec_attn self) rnn_output enc of
                  Inl e' \<Rightarrow> e = e'
                | Inr w \<Rightarrow>
                    (case torch_bmm w (transpose01 enc) of
                       Inl e' \<Rightarrow> e = e'
                     | Inr ctx \<Rightarrow>
                         (case torch_cat_dim1 (squeeze0 rnn_output) (squeeze1 ctx) of
                            Inl e' \<Rightarrow> e = e'
                          | Inr concat_input \<Rightarrow>
                              (case linear_forward (dec_concat self) concat_input of
                                 Inl e' \<Rightarrow> e = e'
                               | Inr c \<Rightarrow>
                                   linear_forward (dec_out self) (torch_tanh c) = Inl e))))))"
  unfolding LuongAttnDecoderRNN_forward_def Let_def
  by (simp add: ebind_error_case error_case_False eq_commute [of UnboundLocalError]
        cong: sum.case_cong split: option.split prod.split)

text \<open>
  Claim C1. The only validation in the module is the value check on the name of the attention
  method. For every string \<open>m\<close>, \<^verbatim>\<open>Attn.__init__(m, h)\<close> raises exactly when \<open>m\<close> is not
  one of \<^verbatim>\<open>dot\<close>, \<^verbatim>\<open>general\<close>, \<^verbatim>\<open>concat\<close>, and what it raises is the \<open>ValueError\<close> of
  line 73. No other constructor or method checks a value. \<^verbatim>\<open>EncoderRNN.__init__\<close> fails
  exactly when the constructor of its recurrent layer does, and
  \<^verbatim>\<open>LuongAttnDecoderRNN.__init__\<close> exactly when \<^verbatim>\<open>nn.Dropout\<close>, the constructor of its
  recurrent layer or \<^verbatim>\<open>Attn.__init__\<close> does, with the error of the first of them that
  fails. The score functions, \<^verbatim>\<open>Attn.forward\<close> and the \<^verbatim>\<open>forward\<close> methods of the encoder
  and the decoder fail exactly when one of the tensor operations or layers they call fails,
  with its error, or when an attribute or a local name is unset.
\<close>

theorem attn_init_validation:
  "(isl (Attn_init lv vv m h) \<longleftrightarrow> m \<notin> {''dot'', ''general'', ''concat''}) \<and>
   (\<forall>e. Attn_init lv vv m h = Inl e \<longrightarrow>
        e = ValueError [m, ''is not an appropriate attention method.'']) \<and>
   (\<forall>e. EncoderRNN_init rt vals h emb n dr = Inl e \<longleftrightarrow>
        rt = ''LSTM'' \<and> nn_LSTM vals h h n (if n = 1 then 0 else dr) True = Inl e \<or>
        rt = ''GRU'' \<and> nn_GRU vals h h n (if n = 1 then 0 else dr) True = Inl e) \<and>
   (\<forall>e. LuongAttnDecoderRNN_init rt dv m emb h out n dr = Inl e \<longleftrightarrow>
        (case nn_Dropout (dv_dropout dv) dr of
           Inl e' \<Rightarrow> e = e'
         | Inr embedding_dropout \<Rightarrow>
             (case decoder_rnn_layers rt (dv_rnn dv) h n dr of
                Inl e' \<Rightarrow> e = e'
              | Inr layers \<Rightarrow> Attn_init (dv_attn dv) (dv_v dv) m h = Inl e))) \<and>
   (\<forall>e. decoder_rnn_layers rt vals h n dr = Inl e \<longleftrightarrow>
        rt = ''LSTM'' \<and> nn_LSTM vals h h n (if n = 1 then 0 else dr) False = Inl e \<or>
        rt = ''GRU'' \<and> nn_GRU vals h h n (if n = 1 then 0 else dr) False = Inl e) \<and>
   (\<forall>e. dot_score a hid enc = Inl e \<longleftrightarrow> torch_mul hid enc = Inl e) \<and>
   (\<forall>e. general_score a hid enc = Inl e \<longleftrightarrow>
        (case attn_linear a of
           None \<Rightarrow> e = AttributeError
         | Some l \<Rightarrow>
             (case linear_forward3 l enc of
                Inl e' \<Rightarrow> e = e'
              | Inr energy \<Rightarrow> torch_mul hid energy = Inl e))) \<and>
   (\<forall>e. concat_score a hid enc = Inl e \<longleftrightarrow>
        (case attn_linear a of
           None \<Rightarrow> e = AttributeError
         | Some l \<Rightarrow>
             (case expand0 hid (d0 enc) of
                Inl e' \<Rightarrow> e = e'
              | Inr h' \<Rightarrow>
                  (case torch_cat_dim2 h' enc of
                     Inl e' \<Rightarrow> e = e'
                   | Inr c \<Rightarrow>
                       (case linear_forward3 l c of
                          Inl e' \<Rightarrow> e = e'
                        | Inr energy \<Rightarrow>
                            (case attn_v a of
                               None \<Rightarrow> e = AttributeError
                             | Some v \<Rightarrow>
                                 torch_mul (as_rank3 v) (tanh3 energy) = Inl e)))))) \<and>
   (\<forall>e. Attn_forward a hid enc = Inl e \<longleftrightarrow>
        (if attn_method a = ''general'' then general_score a hid enc = Inl e
         else if attn_method a = ''concat'' then concat_score a hid enc = Inl e
         else if attn_method a = ''dot'' then dot_score a hid enc = Inl e
         else e = UnboundLocalError)) \<and>
   (\<forall>e. encoder_rnn_step rt self p hx = Inl e \<longleftrightarrow>
        (if rt = ''LSTM''
         then (case enc_lstm self of
                 None \<Rightarrow> e = AttributeError
               | Some l \<Rightarrow> rnn_forward_packed l p None = Inl e)
         else rt = ''GRU'' \<and>
              (case enc_gru self of
                 None \<Rightarrow> e = AttributeError
               | Some l \<Rightarrow> rnn_forward_packed l p hx = Inl e))) \<and>
   (\<forall>e. EncoderRNN_forward rt self inp ls hx = Inl e \<longleftrightarrow>
        (case embedding_forward (enc_embedding self) inp of
           Inl e' \<Rightarrow> e = e'
         | Inr embedded \<Rightarrow>
             (case pack_padded_sequence embedded ls of
                Inl e' \<Rightarrow> e = e'
              | Inr p \<Rightarrow>
                  (case encoder_rnn_step rt self p hx of
                     Inl e' \<Rightarrow> e = e'
                   | Inr None \<Rightarrow> e = UnboundLocalError
                   | Inr (Some (outputs, hidden)) \<Rightarrow>
                       (case pad_packed_sequence outputs of
                          Inl e' \<Rightarrow> e = e'
                        | Inr outputs \<Rightarrow>
                            torch_add (slice_dim2_to outputs (enc_hidden_size self))
                              (slice_dim2_from outputs (enc_hidden_size self)) = Inl e))))) \<and>
   (\<forall>e. decoder_rnn_step rt dec x hx = Inl e \<longleftrightarrow>
        (if rt = ''LSTM''
         then (case dec_lstm dec of
                 None \<Rightarrow> e = AttributeError
               | Some l \<Rightarrow> rnn_forward l x hx = Inl e)
         else rt = ''GRU'' \<and>
              (case dec_gru dec of
                 None \<Rightarrow> e = AttributeError
               | Some l \<Rightarrow> rnn_forward l x hx = Inl e))) \<and>
   (\<forall>e. LuongAttnDecoderRNN_forward rt dec step hx enc = Inl e \<longleftrightarrow>
        (case embedding_forward (dec_embedding dec) step of
           Inl e' \<Rightarrow> e = e'
         | Inr embedded \<Rightarrow>
             (case decoder_rnn_step rt dec
                     (dropout_forward (dec_embedding_dropout dec) embedded) hx of
                Inl e' \<Rightarrow> e = e'
              | Inr None \<Rightarrow> e = UnboundLocalError
              | Inr (Some (rnn_output, hidden)) \<Rightarrow>
                  (case Attn_forward (dec_attn dec) rnn_output enc of
                     Inl e' \<Rightarrow> e = e'
                   | Inr w \<Rightarrow>
                       (case torch_bmm w (transpose01 enc) of
                          Inl e' \<Rightarrow> e = e'
                        | Inr ctx \<Rightarrow>
                            (case torch_cat_dim1 (squeeze0 rnn_output) (squeeze1 ctx) of
                               Inl e' \<Rightarrow> e = e'
                             | Inr concat_input \<Rightarrow>
                                 (case linear_forward (dec_concat dec) concat_input of
                                    Inl e' \<Rightarrow> e = e'
                                  | Inr c \<Rightarrow>
                                      linear_forward (dec_out dec) (torch_tanh c) =
                                        Inl e)))))))"
proof (intro conjI allI)
  show "isl (Attn_init lv vv m h) \<longleftrightarrow> m \<notin> {''dot'', ''general'', ''concat''}"
    by (auto simp: Attn_init_def)
  show "Attn_init lv vv m h = Inl e \<longrightarrow>
          e = ValueError [m, ''is not an appropriate attention method.'']" for e
    by (simp add: Attn_init_error)
qed (rule EncoderRNN_init_error LuongAttnDecoderRNN_init_error decoder_rnn_layers_error
       dot_score_error general_score_error concat_score_error Attn_forward_error
       encoder_rnn_step_error EncoderRNN_forward_error decoder_rnn_step_error
       LuongAttnDecoderRNN_forward_error)+

theorem attn_init_validation_witness:
  "isl (Attn_init ex_lin ex_v ''bilinear'' 2) \<and>
   Attn_init ex_lin ex_v ''bilinear'' 2 =
     Inl (ValueError [''bilinear'', ''is not an appropriate attention method.'']) \<and>
   \<not> isl (Attn_init ex_lin ex_v ''dot'' 2) \<and>
   \<not> isl (Attn_init ex_lin ex_v ''general'' 2) \<and>
   \<not> isl (Attn_init ex_lin ex_v ''concat'' 2) \<and>
   LuongAttnDecoderRNN_init ''GRU'' ex_decoder_values ''dot'' ex_embedding 1 3 1 2 =
     Inl (ValueError [''dropout probability has to be between 0 and 1'']) \<and>
   EncoderRNN_forward ''GRU'' ex_encoder ex_bad_input [2] None = Inl IndexError"
proof -
  note b = attn_init_validation [where lv = ex_lin and vv = ex_v and m = "''bilinear''" and h = 2]
  from b have 1: "isl (Attn_init ex_lin ex_v ''bilinear'' 2)"
    by simp
  then obtain e where "Attn_init ex_lin ex_v ''bilinear'' 2 = Inl e"
    by (cases "Attn_init ex_lin ex_v ''bilinear'' 2") auto
  with b have 2: "Attn_init ex_lin ex_v ''bilinear'' 2 =
                    Inl (ValueError [''bilinear'', ''is not an appropriate attention method.''])"
    by simp
  have 3: "\<not> isl (Attn_init ex_lin ex_v ''dot'' 2)"
    using attn_init_validation [where lv = ex_lin and vv = ex_v and m = "''dot''" and h = 2]
    by simp
  have 4: "\<not> isl (Attn_init ex_lin ex_v ''general'' 2)"
    using attn_init_validation [where lv = ex_lin and vv = ex_v and m = "''general''" and h = 2]
    by simp
  have 5: "\<not> isl (Attn_init ex_lin ex_v ''concat'' 2)"
    using attn_init_validation [where lv = ex_lin and vv = ex_v and m = "''concat''" and h = 2]
    by simp
  have 6: "LuongAttnDecoderRNN_init ''GRU'' ex_decoder_values ''dot'' ex_embedding 1 3 1 2 =
             Inl (ValueError [''dropout probability has to be between 0 and 1''])"
    using attn_init_validation
            [where rt = "''GRU''" and dv = ex_decoder_values and m = "''dot''" and
               emb = ex_embedding and h = 1 and out = 3 and n = 1 and dr = 2]
    by (simp add: nn_Dropout_def)
  have 7: "EncoderRNN_forward ''GRU'' ex_encoder ex_bad_input [2] None = Inl IndexError"
    using attn_init_validation
            [where rt = "''GRU''" and self = ex_encoder and inp = ex_bad_input and
               ls = "[2]" and hx = None]
          ex_bad_lookup
    by (simp add: ex_encoder_def)
  from 1 2 3 4 5 6 7 show ?thesis by blast
qed

end
